theory Spec2Isabelle
  imports Main "HOL-Library.Word" "HOL-Library.Sublist"
begin

section \<open>Strings and decimal numbers (Go \<^verbatim>\<open>strconv\<close>)\<close>

text \<open>
  Go strings are byte sequences; they are modelled as \<^typ>\<open>string\<close>. Go's \<^verbatim>\<open>int\<close> is
  the 64-bit signed integer on the platforms the program is built for; it is modelled
  as \<^typ>\<open>int\<close>, and the places where the range matters (\<^verbatim>\<open>strconv.Atoi\<close>, the
  multiplication of a \<^verbatim>\<open>time.Duration\<close>) write the range out.
\<close>

text \<open>The ASCII decimal digits (what \<^verbatim>\<open>\d\<close> matches in Go's regular expressions, and
  what \<^verbatim>\<open>strconv\<close> reads and writes).\<close>

definition is_digit :: "char \<Rightarrow> bool" where
  "is_digit c = (c \<in> set ''0123456789'')"

definition digit_val :: "char \<Rightarrow> int" where
  "digit_val c = (of_char c :: int) - 48"

definition digit_char :: "nat \<Rightarrow> char" where
  "digit_char d = ''0123456789'' ! d"

text \<open>The value of a string of decimal digits, most significant digit first.\<close>

definition digits_val :: "string \<Rightarrow> int" where
  "digits_val ds = foldl (\<lambda>n c. n * 10 + digit_val c) 0 ds"

text \<open>The decimal digits of a natural number, without leading zeros.\<close>

fun digits_of_nat :: "nat \<Rightarrow> string" where
  "digits_of_nat n =
     (if n < 10 then [digit_char n]
      else digits_of_nat (n div 10) @ [digit_char (n mod 10)])"

declare digits_of_nat.simps [simp del]

text \<open>\<^verbatim>\<open>strconv.Itoa\<close>: the decimal representation, with a minus sign for a negative
  number.\<close>

definition Itoa :: "int \<Rightarrow> string" where
  "Itoa i = (if i < 0 then CHR ''-'' # digits_of_nat (nat (- i)) else digits_of_nat (nat i))"

datatype strconv_error = ErrSyntax | ErrRange

text \<open>
  \<^verbatim>\<open>strconv.Atoi\<close> returns a number and an error together. On a syntax error
  the number is 0; on a range error it is the nearest bound of the 64-bit range. The
  input is an optional sign followed by at least one decimal digit and nothing else.
\<close>

definition Atoi :: "string \<Rightarrow> int \<times> strconv_error option" where
  "Atoi s =
     (let neg = (s \<noteq> [] \<and> hd s = CHR ''-'');
          ds = (if s \<noteq> [] \<and> (hd s = CHR ''-'' \<or> hd s = CHR ''+'') then tl s else s)
      in if ds = [] \<or> \<not> list_all is_digit ds then (0, Some ErrSyntax)
         else let un = digits_val ds
              in if \<not> neg \<and> 2 ^ 63 \<le> un then (2 ^ 63 - 1, Some ErrRange)
                 else if neg \<and> 2 ^ 63 < un then (- (2 ^ 63), Some ErrRange)
                 else (if neg then - un else un, None))"

section \<open>The throttling tracker client (package \<^verbatim>\<open>jiraclient\<close>)\<close>

text \<open>
  An HTTP response as far as the program reads it: the status code and the headers.
  Header names are matched case-insensitively by \<^verbatim>\<open>Header.Get\<close>; the model keys the
  headers by their lower-case names. \<^verbatim>\<open>Get\<close> returns the empty string for an absent
  header.
\<close>

record response =
  StatusCode :: int
  Header :: "(string \<times> string) list"

definition Header_Get :: "(string \<times> string) list \<Rightarrow> string \<Rightarrow> string" where
  "Header_Get h k = (case map_of h k of None \<Rightarrow> [] | Some v \<Rightarrow> v)"

datatype transport_error = TransportError string

text \<open>What the embedded \<^verbatim>\<open>http.Client\<close> gives back for one call: a response pointer
  (possibly nil) and an error (possibly nil).\<close>

type_synonym reply = "response option \<times> transport_error option"

definition StatusTooManyRequests :: int where
  "StatusTooManyRequests = 429"

text \<open>\<^verbatim>\<open>time.Duration\<close> is a 64-bit count of nanoseconds; its multiplication wraps.\<close>

definition Second :: "64 word" where
  "Second = 1000000000"

text \<open>
  The duration handed to \<^verbatim>\<open>time.Sleep\<close> for a throttled response whose
  \<^verbatim>\<open>retry-after\<close> header reads \<open>retryAfter\<close>. The source tests \<^verbatim>\<open>err != nil\<close>:
  the parsed number replaces the default exactly when parsing failed.
\<close>

definition throttle_wait :: "string \<Rightarrow> 64 word" where
  "throttle_wait retryAfter =
     (let wait = Second * 1
      in if retryAfter \<noteq> [] then
           (case Atoi retryAfter of
              (n, Some err) \<Rightarrow> word_of_int n * Second
            | (n, None) \<Rightarrow> wait)
         else wait)"

datatype do_outcome =
    Return "response option" "transport_error option"
  | PanicNilResponse

text \<open>
  \<^verbatim>\<open>throttlingHttpClient.Do\<close>. The transport is a script of replies, one per call of
  the embedded client; the method calls itself again after a throttled reply, so it
  consumes the script until a reply is not throttled. The result holds the outcome, the
  durations passed to \<^verbatim>\<open>time.Sleep\<close> (signed nanoseconds, in order) and the unread
  rest of the script. \<open>None\<close> means that the script ended while the method was still
  retrying. The status code is read before the error is looked at: a nil response
  is a nil-pointer dereference.
\<close>

fun Do :: "reply list \<Rightarrow> int list \<Rightarrow> (do_outcome \<times> int list \<times> reply list) option" where
  "Do [] sleeps = None"
| "Do ((res, err) # rest) sleeps =
     (case res of
        None \<Rightarrow> Some (PanicNilResponse, sleeps, rest)
      | Some r \<Rightarrow>
          if StatusCode r = StatusTooManyRequests then
            Do rest (sleeps @ [sint (throttle_wait (Header_Get (Header r) ''retry-after''))])
          else Some (Return res err, sleeps, rest))"

text \<open>\<^verbatim>\<open>time.Sleep\<close> pauses for at least its argument and returns at once for a
  duration that is zero or negative: the time certainly spent in a list of sleeps.\<close>

definition slept :: "int list \<Rightarrow> int" where
  "slept ds = sum_list (map (max 0) ds)"


section \<open>Source items and the team roster\<close>

text \<open>
  \<^verbatim>\<open>GithubIssue\<close> of \<^verbatim>\<open>main.go\<close>. The author and the assignee are anonymous
  structs of the same shape. \<^verbatim>\<open>IsPR\<close> has type \<^verbatim>\<open>any\<close>: it is nil unless the
  decoded entry has a \<^verbatim>\<open>pull_request\<close> sub-object, whose content the program never
  reads (here, its text).
\<close>

record user_ref =
  Handle :: string
  JiraUsername :: string

record GithubIssue =
  Title :: string
  Body :: string
  URL :: string
  Number :: int
  Author :: user_ref
  Assignee :: user_ref
  Status :: string
  IsPR :: "string option"

text \<open>\<^verbatim>\<open>team.Person\<close> (the leave intervals, which the program never reads, are left
  out).\<close>

record Person =
  Kerberos :: string
  Github :: string
  Jira :: string
  Slack :: string
  TeamMember :: bool
  BugTriage :: bool

text \<open>\<^verbatim>\<open>team.PersonByGithubHandle\<close>: the first person with the handle; the source's
  second result \<^verbatim>\<open>false\<close> is \<open>None\<close>.\<close>

fun PersonByGithubHandle :: "Person list \<Rightarrow> string \<Rightarrow> Person option" where
  "PersonByGithubHandle [] githubHandle = None"
| "PersonByGithubHandle (p # people) githubHandle =
     (if Github p = githubHandle then Some p else PersonByGithubHandle people githubHandle)"

text \<open>The roster \<^verbatim>\<open>main\<close> passes on: the loaded people that are team members.\<close>

definition teamMembers :: "Person list \<Rightarrow> Person list" where
  "teamMembers people = filter TeamMember people"

text \<open>
  The body of the loop of \<^verbatim>\<open>AssignedToTheTeam\<close> for one item: the author's tracker
  name is filled in when the author is on the roster; the item is sent on only when the
  assignee is, with the assignee's tracker name filled in.
\<close>

definition resolve_author :: "Person list \<Rightarrow> GithubIssue \<Rightarrow> GithubIssue" where
  "resolve_author members i =
     (case PersonByGithubHandle members (Handle (Author i)) of
        Some author \<Rightarrow> i\<lparr>Author := (Author i)\<lparr>JiraUsername := Jira author\<rparr>\<rparr>
      | None \<Rightarrow> i)"

fun AssignedToTheTeam :: "GithubIssue list \<Rightarrow> Person list \<Rightarrow> GithubIssue list" where
  "AssignedToTheTeam [] members = []"
| "AssignedToTheTeam (i # issues) members =
     (let i = resolve_author members i
      in case PersonByGithubHandle members (Handle (Assignee i)) of
           Some assignee \<Rightarrow>
             i\<lparr>Assignee := (Assignee i)\<lparr>JiraUsername := Jira assignee\<rparr>\<rparr>
               # AssignedToTheTeam issues members
         | None \<Rightarrow> AssignedToTheTeam issues members)"

section \<open>Producers and their output streams\<close>

text \<open>
  Each producer is a goroutine that sends items on an unbuffered channel. A producer is
  modelled by the list of items it sends and by how it ends:
  \<^item> \<open>Closed\<close>: the goroutine returns and the channel is closed;
  \<^item> \<open>Exited\<close>: \<^verbatim>\<open>log.Fatalf\<close> ends the whole process (deferred calls do not run);
  \<^item> \<open>Unclosed\<close>: the goroutine returns and leaves the channel open: a consumer ranging
    over the channel waits for ever;
  \<^item> \<open>Panicked\<close>: a nil pointer is dereferenced.
  The remote service is a script of replies, read one per request; a result \<open>None\<close>
  means that the producer asked for a reply beyond the end of the script.
\<close>

datatype ending = Closed | Exited | Unclosed | Panicked

subsection \<open>The two patterns of \<^verbatim>\<open>main.go\<close>\<close>

text \<open>
  \<^verbatim>\<open>ghIssueNumberRegex\<close> is \<^verbatim>\<open>GH-orc-(\d+): \<close>. A match at the head of a string is
  the literal, then the longest run of digits, which must not be empty and must be
  followed by a colon and a space (a shorter run of digits would be followed by a digit).
  \<^verbatim>\<open>FindStringSubmatch\<close> returns the leftmost match; the model returns its group 1, and
  \<open>None\<close> where the source gets a nil slice.
\<close>

definition ghIssueNumber_here :: "string \<Rightarrow> string option" where
  "ghIssueNumber_here s =
     (if prefix ''GH-orc-'' s then
        (let r = drop 7 s
         in if takeWhile is_digit r \<noteq> [] \<and> prefix '': '' (dropWhile is_digit r)
            then Some (takeWhile is_digit r) else None)
      else None)"

fun ghIssueNumberRegex :: "string \<Rightarrow> string option" where
  "ghIssueNumberRegex [] = None"
| "ghIssueNumberRegex (c # s) =
     (case ghIssueNumber_here (c # s) of
        Some d \<Rightarrow> Some d
      | None \<Rightarrow> ghIssueNumberRegex s)"

text \<open>
  \<^verbatim>\<open>linkHeaderRegex\<close> is \<^verbatim>\<open><(\S+)>; rel="next"\<close>. \<^verbatim>\<open>\S\<close> is any character but tab,
  newline, form feed, carriage return and space. The literal after the group has a space
  as its third character, so a match at a \<^verbatim>\<open><\<close> exists exactly when the run of
  non-space characters after it ends in \<^verbatim>\<open>>;\<close>, is longer than that, and is followed
  by \<^verbatim>\<open> rel="next"\<close>; group 1 is the run without its last two characters.
\<close>

definition is_space :: "char \<Rightarrow> bool" where
  "is_space c =
     (c = CHR 0x09 \<or> c = CHR 0x0A \<or> c = CHR 0x0C \<or> c = CHR 0x0D \<or> c = CHR '' '')"

definition rel_next :: string where
  "rel_next = '' rel='' @ [CHR 0x22] @ ''next'' @ [CHR 0x22]"

definition linkHeader_here :: "string \<Rightarrow> string option" where
  "linkHeader_here s =
     (case s of
        [] \<Rightarrow> None
      | c # r \<Rightarrow>
          (let run = takeWhile (\<lambda>c. \<not> is_space c) r
           in if c = CHR ''<'' \<and> 2 < length run \<and> suffix ''>;'' run
                 \<and> prefix rel_next (dropWhile (\<lambda>c. \<not> is_space c) r)
              then Some (take (length run - 2) run) else None))"

fun linkHeaderRegex :: "string \<Rightarrow> string option" where
  "linkHeaderRegex [] = None"
| "linkHeaderRegex (c # s) =
     (case linkHeader_here (c # s) of
        Some u \<Rightarrow> Some u
      | None \<Rightarrow> linkHeaderRegex s)"

subsection \<open>The source item fetcher\<close>

text \<open>
  A reply of the source repository: the response of the throttling section with the
  decoded body, \<open>None\<close> when the body does not decode as a list of items.
\<close>

record gh_response = response +
  Batch :: "GithubIssue list option"

type_synonym gh_reply = "gh_response option \<times> transport_error option"

definition issues_url :: string where
  "issues_url = ''https://api.github.com/repos/k-orc/openstack-resource-controller/issues''"

text \<open>The address of the next page: empty unless the \<^verbatim>\<open>link\<close> header is present and
  matches the pattern.\<close>

definition next_url :: "(string \<times> string) list \<Rightarrow> string" where
  "next_url h =
     (let linkHeader = Header_Get h ''link''
      in if linkHeader \<noteq> [] then
           (case linkHeaderRegex linkHeader of Some u \<Rightarrow> u | None \<Rightarrow> [])
         else [])"

text \<open>
  The loop of \<^verbatim>\<open>fetchGitHubIssues\<close>. \<open>request_ok\<close> says for which addresses
  \<^verbatim>\<open>http.NewRequestWithContext\<close> builds a request (it parses the address). The loop
  carries the address of the page to ask for, the items sent so far and the addresses
  requested so far; it returns these with the ending and the unread replies. Every
  error ends in \<^verbatim>\<open>log.Fatalf\<close>. Entries with a pull-request sub-object are not sent.
  The token only adds headers to the request, and the context only makes the transport
  fail when it is cancelled; neither is a parameter of the model.
\<close>

fun fetch_loop :: "(string \<Rightarrow> bool) \<Rightarrow> string \<Rightarrow> gh_reply list \<Rightarrow> GithubIssue list \<Rightarrow> string list
    \<Rightarrow> (GithubIssue list \<times> string list \<times> ending \<times> gh_reply list) option" where
  "fetch_loop request_ok url [] sent reqs =
     (if url = [] then Some (sent, reqs, Closed, [])
      else if \<not> request_ok url then Some (sent, reqs, Exited, [])
      else None)"
| "fetch_loop request_ok url ((res, err) # script) sent reqs =
     (if url = [] then Some (sent, reqs, Closed, (res, err) # script)
      else if \<not> request_ok url then Some (sent, reqs, Exited, (res, err) # script)
      else if err \<noteq> None then Some (sent, reqs @ [url], Exited, script)
      else case res of
             None \<Rightarrow> Some (sent, reqs @ [url], Panicked, script)
           | Some r \<Rightarrow>
               if StatusCode r \<noteq> 200 then Some (sent, reqs @ [url], Exited, script)
               else case Batch r of
                      None \<Rightarrow> Some (sent, reqs @ [url], Exited, script)
                    | Some issueBatch \<Rightarrow>
                        fetch_loop request_ok (next_url (Header r)) script
                          (sent @ filter (\<lambda>issue. IsPR issue = None) issueBatch)
                          (reqs @ [url]))"

definition fetchGitHubIssues :: "(string \<Rightarrow> bool) \<Rightarrow> gh_reply list
    \<Rightarrow> (GithubIssue list \<times> string list \<times> ending \<times> gh_reply list) option" where
  "fetchGitHubIssues request_ok script = fetch_loop request_ok issues_url script [] []"

section \<open>The tracker: search, index and reconciliation\<close>

text \<open>
  The tracker library's types, as far as the program reads or writes them. A
  \<^verbatim>\<open>jira.Issue\<close> has a key and a pointer to its fields; the status in the fields is a
  pointer to a struct of which the program reads the name. The fields carry the prefix
  \<open>jira_\<close> to keep them apart from the fields of \<^verbatim>\<open>GithubIssue\<close> and
  \<^verbatim>\<open>knownIssue\<close>.
\<close>

record IssueFields =
  jira_Assignee :: "string option"
  jira_Description :: string
  jira_Type :: string
  jira_Project :: string
  jira_Summary :: string
  jira_Components :: "string list"
  jira_Status :: "string option"

record Issue =
  jira_Key :: string
  jira_Fields :: "IssueFields option"

record Transition =
  ID :: string
  Name :: string

text \<open>\<^verbatim>\<open>jira.Response\<close>: the HTTP response with the pagination fields of a search.\<close>

record search_response = response +
  StartAt :: int
  Total :: int

type_synonym search_reply = "Issue list \<times> search_response option \<times> transport_error option"

text \<open>Go's \<^verbatim>\<open>int\<close> addition wraps in 64 bits.\<close>

definition go_int :: "int \<Rightarrow> int" where
  "go_int x = sint (word_of_int x :: 64 word)"

text \<open>
  The loop of \<^verbatim>\<open>query.SearchIssues\<close>, with the loop variables \<^verbatim>\<open>last\<close> and \<^verbatim>\<open>total\<close>,
  the issues sent so far and the offsets requested so far. An error of the search call
  ends in \<^verbatim>\<open>log.Fatalf\<close>. On a status other than 200, 204 and 202 the goroutine
  logs and returns; the only \<^verbatim>\<open>close\<close> of the channel is after the loop.
\<close>

fun search_loop :: "search_reply list \<Rightarrow> int \<Rightarrow> int \<Rightarrow> Issue list \<Rightarrow> int list
    \<Rightarrow> (Issue list \<times> int list \<times> ending \<times> search_reply list) option" where
  "search_loop [] last' total' sent reqs =
     (if last' < total' then None else Some (sent, reqs, Closed, []))"
| "search_loop ((issues, res, err) # script) last' total' sent reqs =
     (if \<not> last' < total' then Some (sent, reqs, Closed, (issues, res, err) # script)
      else if err \<noteq> None then Some (sent, reqs @ [last'], Exited, script)
      else case res of
             None \<Rightarrow> Some (sent, reqs @ [last'], Panicked, script)
           | Some r \<Rightarrow>
               if StatusCode r = 200 \<or> StatusCode r = 204 \<or> StatusCode r = 202 then
                 search_loop script (go_int (StartAt r + int (length issues))) (Total r)
                   (sent @ issues) (reqs @ [last'])
               else Some (sent, reqs @ [last'], Unclosed, script))"

definition SearchIssues :: "search_reply list
    \<Rightarrow> (Issue list \<times> int list \<times> ending \<times> search_reply list) option" where
  "SearchIssues script = search_loop script 0 1 [] []"

text \<open>\<^verbatim>\<open>knownIssue\<close>; its status is the pointer copied from the issue's fields.\<close>

record knownIssue =
  Key :: string
  KnownStatus :: "string option"

datatype panic = NilDereference | CouldNotParseIssueNumber strconv_error

text \<open>
  The loop of \<^verbatim>\<open>main\<close> that fills the map \<^verbatim>\<open>alreadyKnown\<close> from the stream of
  tracker issues: an issue whose summary matches the pattern is stored under the number
  in the summary, over whatever the map held for that number; the loop panics when
  the digits do not fit an \<^verbatim>\<open>int\<close>.
\<close>

fun alreadyKnown :: "Issue list \<Rightarrow> (int \<rightharpoonup> knownIssue) \<Rightarrow> panic + (int \<rightharpoonup> knownIssue)" where
  "alreadyKnown [] m = Inr m"
| "alreadyKnown (issue # issues) m =
     (case jira_Fields issue of
        None \<Rightarrow> Inl NilDereference
      | Some flds \<Rightarrow>
          (case ghIssueNumberRegex (jira_Summary flds) of
             None \<Rightarrow> alreadyKnown issues m
           | Some digits \<Rightarrow>
               (case Atoi digits of
                  (n, Some err) \<Rightarrow> Inl (CouldNotParseIssueNumber err)
                | (n, None) \<Rightarrow>
                    alreadyKnown issues
                      (m(n \<mapsto> \<lparr>Key = jira_Key issue, KnownStatus = jira_Status flds\<rparr>)))))"

text \<open>
  The tracker client's three mutation and query calls, over a state \<open>'w\<close> of the
  tracker that each call may change. \<^verbatim>\<open>Create\<close> returns an issue pointer, a response
  pointer and an error; of \<^verbatim>\<open>GetTransitions\<close> the program keeps the transitions only
  and of \<^verbatim>\<open>DoTransition\<close> the error only.
\<close>

record 'w jira_client =
  Issue_Create :: "Issue \<Rightarrow> 'w \<Rightarrow> (Issue option \<times> response option \<times> transport_error option) \<times> 'w"
  Issue_GetTransitions :: "string \<Rightarrow> 'w \<Rightarrow> Transition list \<times> 'w"
  Issue_DoTransition :: "string \<Rightarrow> string \<Rightarrow> 'w \<Rightarrow> transport_error option \<times> 'w"

text \<open>The calls a run makes on the tracker, in order.\<close>

datatype call =
    CreateCall Issue
  | GetTransitionsCall string
  | DoTransitionCall string string

definition is_mutation :: "call \<Rightarrow> bool" where
  "is_mutation c = (case c of GetTransitionsCall k \<Rightarrow> False | _ \<Rightarrow> True)"

text \<open>The issue \<^verbatim>\<open>createJiraIssue\<close> sends; its summary is the tag with the item's
  number, then the item's title.\<close>

definition newline :: char where
  "newline = CHR 0x0A"

definition issue_summary :: "GithubIssue \<Rightarrow> string" where
  "issue_summary issue = ''GH-orc-'' @ Itoa (Number issue) @ '': '' @ Title issue"

definition new_issue :: "GithubIssue \<Rightarrow> Issue" where
  "new_issue issue =
     \<lparr>jira_Key = [],
      jira_Fields = Some
        \<lparr>jira_Assignee = Some (JiraUsername (Assignee issue)),
         jira_Description =
           ''Originally posted on Github: '' @ URL issue @ [newline, newline] @ Body issue,
         jira_Type = ''Task'',
         jira_Project = ''OSASINFRA'',
         jira_Summary = issue_summary issue,
         jira_Components = [''ORC''],
         jira_Status = None\<rparr>\<rparr>"

text \<open>\<^verbatim>\<open>createJiraIssue\<close>: on an error it copies the body of the response, which is
  a nil-pointer dereference when the call returned no response.\<close>

definition createJiraIssue :: "'w jira_client \<Rightarrow> GithubIssue \<Rightarrow> 'w
    \<Rightarrow> (panic + Issue option \<times> transport_error option) \<times> 'w" where
  "createJiraIssue jiraClient issue w =
     (case Issue_Create jiraClient (new_issue issue) w of
        ((jiraIssue, response, err), w') \<Rightarrow>
          (if err \<noteq> None then
             (case response of
                None \<Rightarrow> (Inl NilDereference, w')
              | Some r \<Rightarrow> (Inr (None, err), w'))
           else (Inr (jiraIssue, None), w')))"

text \<open>The identifiers of the transitions named \<^verbatim>\<open>To Do\<close> and \<^verbatim>\<open>Closed\<close>: each is the
  identifier of the last transition of that name, and empty when there is none.\<close>

definition pick_transition :: "string \<times> string \<Rightarrow> Transition \<Rightarrow> string \<times> string" where
  "pick_transition ids v =
     (case ids of
        (transitionTodo, transitionClosed) \<Rightarrow>
          if Name v = ''Closed'' then (transitionTodo, ID v)
          else if Name v = ''To Do'' then (ID v, transitionClosed)
          else (transitionTodo, transitionClosed))"

definition transition_ids :: "Transition list \<Rightarrow> string \<times> string" where
  "transition_ids possibleTransitions = foldl pick_transition ([], []) possibleTransitions"

text \<open>
  The body of the last loop of \<^verbatim>\<open>main\<close> for one item. It returns a panic, if any,
  with the state of the tracker after the calls it has made on the client. The two
  cases of the \<^verbatim>\<open>switch\<close> read the name of the known issue's status only after the
  comparison of the item's status has succeeded (\<^verbatim>\<open>&&\<close> evaluates its right operand
  only then). Log lines are left out.
\<close>

definition reconcile_item :: "'w jira_client \<Rightarrow> (int \<rightharpoonup> knownIssue) \<Rightarrow> GithubIssue \<Rightarrow> 'w
    \<Rightarrow> panic option \<times> 'w" where
  "reconcile_item jiraClient known issue w =
     (case known (Number issue) of
        Some jiraIssue \<Rightarrow>
          (case Issue_GetTransitions jiraClient (Key jiraIssue) w of
             (possibleTransitions, w1) \<Rightarrow>
               (case transition_ids possibleTransitions of
                  (transitionTodo, transitionClosed) \<Rightarrow>
                    (if Status issue = ''closed'' then
                       (case KnownStatus jiraIssue of
                          None \<Rightarrow> (Some NilDereference, w1)
                        | Some name \<Rightarrow>
                            if name \<noteq> ''Closed'' then
                              (case Issue_DoTransition jiraClient (Key jiraIssue) transitionClosed w1 of
                                 (err, w2) \<Rightarrow> (None, w2))
                            else (None, w1))
                     else if Status issue = ''open'' then
                       (case KnownStatus jiraIssue of
                          None \<Rightarrow> (Some NilDereference, w1)
                        | Some name \<Rightarrow>
                            if name = ''Closed'' then
                              (case Issue_DoTransition jiraClient (Key jiraIssue) transitionTodo w1 of
                                 (err, w2) \<Rightarrow> (None, w2))
                            else (None, w1))
                     else (None, w1))))
      | None \<Rightarrow>
          (case createJiraIssue jiraClient issue w of
             (Inl p, w1) \<Rightarrow> (Some p, w1)
           | (Inr r, w1) \<Rightarrow> (None, w1)))"

text \<open>The loop itself: the items in order, up to the first panic.\<close>

fun reconcile :: "'w jira_client \<Rightarrow> (int \<rightharpoonup> knownIssue) \<Rightarrow> GithubIssue list \<Rightarrow> 'w
    \<Rightarrow> panic option \<times> 'w" where
  "reconcile jiraClient known [] w = (None, w)"
| "reconcile jiraClient known (issue # issues) w =
     (case reconcile_item jiraClient known issue w of
        (Some p, w1) \<Rightarrow> (Some p, w1)
      | (None, w1) \<Rightarrow> reconcile jiraClient known issues w1)"

text \<open>
  To observe the calls, a client is wrapped into one that keeps a log: each of the
  three calls appends itself, with its arguments, to the log and is passed on to the
  wrapped client. The log is thus written by the client when it is called, not by the
  loop. The calls the loop body makes for one item are the log it leaves on such a
  client.
\<close>

definition recording :: "'w jira_client \<Rightarrow> (call list \<times> 'w) jira_client" where
  "recording jiraClient =
     \<lparr>Issue_Create = (\<lambda>issue s.
        (fst (Issue_Create jiraClient issue (snd s)),
         (fst s @ [CreateCall issue], snd (Issue_Create jiraClient issue (snd s))))),
      Issue_GetTransitions = (\<lambda>key s.
        (fst (Issue_GetTransitions jiraClient key (snd s)),
         (fst s @ [GetTransitionsCall key], snd (Issue_GetTransitions jiraClient key (snd s))))),
      Issue_DoTransition = (\<lambda>key transition s.
        (fst (Issue_DoTransition jiraClient key transition (snd s)),
         (fst s @ [DoTransitionCall key transition],
          snd (Issue_DoTransition jiraClient key transition (snd s)))))\<rparr>"

definition item_calls :: "'w jira_client \<Rightarrow> (int \<rightharpoonup> knownIssue) \<Rightarrow> GithubIssue \<Rightarrow> 'w \<Rightarrow> call list" where
  "item_calls jiraClient known issue w =
     fst (snd (reconcile_item (recording jiraClient) known issue ([], w)))"

section \<open>The notions the statements use\<close>

text \<open>The source-item number a tracker issue's summary embeds, and the record the index
  keeps for the issue.\<close>

definition issue_number :: "Issue \<Rightarrow> int option" where
  "issue_number issue =
     (case jira_Fields issue of
        None \<Rightarrow> None
      | Some flds \<Rightarrow>
          (case ghIssueNumberRegex (jira_Summary flds) of
             None \<Rightarrow> None
           | Some ds \<Rightarrow> (case Atoi ds of (n, None) \<Rightarrow> Some n | (n, Some err) \<Rightarrow> None)))"

definition known_record :: "Issue \<Rightarrow> knownIssue" where
  "known_record issue =
     \<lparr>Key = jira_Key issue,
      KnownStatus = (case jira_Fields issue of None \<Rightarrow> None | Some flds \<Rightarrow> jira_Status flds)\<rparr>"

text \<open>The index entry for a number, after the whole stream has been read.\<close>

definition lookup_known :: "Issue list \<Rightarrow> int \<Rightarrow> panic + knownIssue option" where
  "lookup_known issues n =
     (case alreadyKnown issues Map.empty of Inl p \<Rightarrow> Inl p | Inr m \<Rightarrow> Inr (m n))"

text \<open>
  A sequence of successful pages of the source repository, each but the last with a
  next link for which a request can be built: status 200, a body that decodes, and the
  next address not empty except on the last page.
\<close>

definition reply_of :: "gh_response \<Rightarrow> gh_reply" where
  "reply_of r = (Some r, None)"

definition batch_of :: "gh_response \<Rightarrow> GithubIssue list" where
  "batch_of r = (case Batch r of None \<Rightarrow> [] | Some b \<Rightarrow> b)"

fun page_chain :: "(string \<Rightarrow> bool) \<Rightarrow> gh_response list \<Rightarrow> bool" where
  "page_chain request_ok [] = False"
| "page_chain request_ok [r] =
     (StatusCode r = 200 \<and> Batch r \<noteq> None \<and> next_url (Header r) = [])"
| "page_chain request_ok (r # r' # rs) =
     (StatusCode r = 200 \<and> Batch r \<noteq> None \<and> next_url (Header r) \<noteq> [] \<and>
      request_ok (next_url (Header r)) \<and> page_chain request_ok (r' # rs))"

text \<open>
  A sequence of successful pages of the tracker search: each page is the issues and the
  response of one call, with a status the loop accepts; on every page but the last the
  offset plus the number of issues is below the reported total.
\<close>

definition search_reply_of :: "Issue list \<times> search_response \<Rightarrow> search_reply" where
  "search_reply_of p = (fst p, Some (snd p), None)"

definition next_offset :: "Issue list \<times> search_response \<Rightarrow> int" where
  "next_offset p = go_int (StartAt (snd p) + int (length (fst p)))"

definition accepted :: "search_response \<Rightarrow> bool" where
  "accepted r = (StatusCode r = 200 \<or> StatusCode r = 204 \<or> StatusCode r = 202)"

fun search_chain :: "(Issue list \<times> search_response) list \<Rightarrow> bool" where
  "search_chain [] = False"
| "search_chain [p] = (accepted (snd p) \<and> \<not> next_offset p < Total (snd p))"
| "search_chain (p # p' # ps) =
     (accepted (snd p) \<and> next_offset p < Total (snd p) \<and> search_chain (p' # ps))"

section \<open>A tracker in which every call succeeds\<close>

text \<open>
  The tracker is a remote service. The statement about a second run is about a tracker
  in which every create and every transition of the first run has succeeded and shows in
  the next search. This is such a tracker: its state is the list of its tickets, in the
  order in which a search returns them. The tracker numbers its tickets and never
  issues a key twice: a created ticket gets the number after the highest number among
  the keys in use, and the status \<open>initial\<close>. Every ticket offers the transitions
  \<open>workflow\<close>; a transition with a known identifier gives the ticket of that key the
  status that has the transition's name, and a transition with an unknown identifier
  fails.
\<close>

definition set_status :: "string \<Rightarrow> string \<Rightarrow> Issue \<Rightarrow> Issue" where
  "set_status key name issue =
     (if jira_Key issue = key then
        issue\<lparr>jira_Fields := map_option (\<lambda>flds. flds\<lparr>jira_Status := Some name\<rparr>) (jira_Fields issue)\<rparr>
      else issue)"

text \<open>The number in a key: the value of what follows the ten characters of the
  project prefix.\<close>

definition key_number :: "string \<Rightarrow> int" where
  "key_number key = digits_val (drop 10 key)"

definition next_key :: "Issue list \<Rightarrow> string" where
  "next_key tickets =
     ''OSASINFRA-'' @ Itoa (1 + fold max (map (\<lambda>t. key_number (jira_Key t)) tickets) 0)"

definition created_ticket :: "string \<Rightarrow> Issue \<Rightarrow> Issue list \<Rightarrow> Issue" where
  "created_ticket initial issue tickets =
     \<lparr>jira_Key = next_key tickets,
      jira_Fields = map_option (\<lambda>flds. flds\<lparr>jira_Status := Some initial\<rparr>) (jira_Fields issue)\<rparr>"

definition tracker :: "string \<Rightarrow> Transition list \<Rightarrow> (Issue list) jira_client" where
  "tracker initial workflow =
     \<lparr>Issue_Create = (\<lambda>issue tickets.
        ((Some (created_ticket initial issue tickets),
          Some \<lparr>StatusCode = 201, Header = []\<rparr>, None),
         tickets @ [created_ticket initial issue tickets])),
      Issue_GetTransitions = (\<lambda>key tickets. (workflow, tickets)),
      Issue_DoTransition = (\<lambda>key transition tickets.
        (case find (\<lambda>t. ID t = transition) workflow of
           None \<Rightarrow> (Some (TransportError ''transition refused''), tickets)
         | Some t \<Rightarrow> (None, map (set_status key (Name t)) tickets)))\<rparr>"

text \<open>
  One run of the program on this tracker, from the filtered items on: the index is
  built from the search, then the items are reconciled. The result is the panic, if
  any, and the tickets after the run; the calls of the run are the log that the same
  run leaves on the recording client.
\<close>

definition run :: "(Issue list) jira_client \<Rightarrow> GithubIssue list \<Rightarrow> Issue list
    \<Rightarrow> panic option \<times> Issue list" where
  "run jiraClient items tickets =
     (case alreadyKnown tickets Map.empty of
        Inl p \<Rightarrow> (Some p, tickets)
      | Inr known \<Rightarrow> reconcile jiraClient known items tickets)"

definition run_calls :: "(Issue list) jira_client \<Rightarrow> GithubIssue list \<Rightarrow> Issue list \<Rightarrow> call list" where
  "run_calls jiraClient items tickets =
     (case alreadyKnown tickets Map.empty of
        Inl p \<Rightarrow> []
      | Inr known \<Rightarrow> fst (snd (reconcile (recording jiraClient) known items ([], tickets))))"




definition upd_known :: "string \<Rightarrow> string \<Rightarrow> knownIssue \<Rightarrow> knownIssue" where
  "upd_known key name r = (if Key r = key then r\<lparr>KnownStatus := Some name\<rparr> else r)"



section \<open>Sample data\<close>

text \<open>A source item, a tracker ticket, a workflow and a roster, for the concrete
  instances of the statements below.\<close>

definition sample_item :: "int \<Rightarrow> string \<Rightarrow> string \<Rightarrow> string option \<Rightarrow> GithubIssue" where
  "sample_item n status assignee pr =
     \<lparr>Title = ''Port is not deleted'', Body = ''Steps to reproduce'',
      URL = ''https://github.com/k-orc/openstack-resource-controller/issues'',
      Number = n,
      Author = \<lparr>Handle = ''reporter'', JiraUsername = []\<rparr>,
      Assignee = \<lparr>Handle = assignee, JiraUsername = []\<rparr>,
      Status = status, IsPR = pr\<rparr>"

definition sample_ticket :: "string \<Rightarrow> string \<Rightarrow> string \<Rightarrow> Issue" where
  "sample_ticket key summary status =
     \<lparr>jira_Key = key,
      jira_Fields = Some
        \<lparr>jira_Assignee = None, jira_Description = [], jira_Type = ''Task'',
         jira_Project = ''OSASINFRA'', jira_Summary = summary,
         jira_Components = [''ORC''], jira_Status = Some status\<rparr>\<rparr>"

definition sample_workflow :: "Transition list" where
  "sample_workflow =
     [\<lparr>ID = ''11'', Name = ''To Do''\<rparr>, \<lparr>ID = ''21'', Name = ''In Progress''\<rparr>,
      \<lparr>ID = ''31'', Name = ''Closed''\<rparr>]"

definition sample_team :: "Person list" where
  "sample_team =
     [\<lparr>Kerberos = ''alice'', Github = ''alice-gh'', Jira = ''alice@example.com'',
       Slack = ''@U01'', TeamMember = True, BugTriage = False\<rparr>]"

text \<open>The loaded people: one who is not on the team, and two team members.\<close>

definition sample_people :: "Person list" where
  "sample_people =
     [\<lparr>Kerberos = ''bob'', Github = ''bob-gh'', Jira = ''bob@example.com'',
       Slack = ''@U02'', TeamMember = False, BugTriage = False\<rparr>,
      \<lparr>Kerberos = ''carol'', Github = ''carol-gh'', Jira = ''carol@example.com'',
       Slack = ''@U03'', TeamMember = True, BugTriage = True\<rparr>,
      \<lparr>Kerberos = ''alice'', Github = ''alice-gh'', Jira = ''alice@example.com'',
       Slack = ''@U01'', TeamMember = True, BugTriage = False\<rparr>]"

definition sample_page :: "string \<Rightarrow> GithubIssue list \<Rightarrow> gh_response" where
  "sample_page link batch =
     \<lparr>StatusCode = 200, Header = [(''link'', link)], Batch = Some batch\<rparr>"

definition sample_link :: string where
  "sample_link =
     ''<https://api.github.com/repositories/1/issues?state=all&page=2>;'' @ rel_next"

section \<open>The throttling client: results\<close>

lemma throttle_wait_parsed:
  assumes "Atoi retryAfter = (n, None)"
  shows "throttle_wait retryAfter = Second"
  using assms by (simp add: throttle_wait_def Let_def)

lemma throttle_wait_absent: "throttle_wait [] = Second"
  by (simp add: throttle_wait_def)

lemma throttle_wait_syntax_error:
  assumes "retryAfter \<noteq> []" "Atoi retryAfter = (0, Some ErrSyntax)"
  shows "throttle_wait retryAfter = 0"
  using assms by (simp add: throttle_wait_def Let_def)

text \<open>
  C1 (the code departs from the claim). A first reply with status 429 and
  \<^verbatim>\<open>retry-after: 2\<close>, followed by a success reply: the client retries and returns the
  second reply, but it sleeps one second (the default), not two, because the parsed
  header value is only used when parsing fails.
\<close>

theorem Do_retry_after_2_sleeps_one_second:
  "Do [(Some \<lparr>StatusCode = 429, Header = [(''retry-after'', ''2'')]\<rparr>, None),
       (Some \<lparr>StatusCode = 200, Header = []\<rparr>, None)] []
   = Some (Return (Some \<lparr>StatusCode = 200, Header = []\<rparr>) None, [1000000000], []) \<and>
   slept [1000000000] = sint Second"
  by (simp add: StatusTooManyRequests_def Header_Get_def throttle_wait_def Atoi_def
      is_digit_def digits_val_def digit_val_def Second_def slept_def)

text \<open>
  C10 (the code departs from the claim). When the transport returns an error together
  with a nil response, the method reads the status code of the nil response before it
  looks at the error: it faults instead of returning the error.
\<close>

theorem Do_nil_response_faults:
  "Do [(None, Some (TransportError ''connection refused''))] []
   = Some (PanicNilResponse, [], [])"
  by simp

section \<open>The source item fetcher drops pull requests\<close>

lemma fetch_loop_no_PR:
  "fetch_loop request_ok url script sent0 reqs0 = Some (sent, reqs, e, rest) \<Longrightarrow>
   \<forall>i \<in> set sent0. IsPR i = None \<Longrightarrow> \<forall>i \<in> set sent. IsPR i = None"
proof (induction script arbitrary: url sent0 reqs0)
  case Nil
  then show ?case by (auto split: if_splits)
next
  case (Cons reply script)
  obtain res err where reply: "reply = (res, err)" by (cases reply)
  show ?case
  proof (cases "url \<noteq> [] \<and> request_ok url \<and> err = None \<and>
                (\<exists>r b. res = Some r \<and> StatusCode r = 200 \<and> Batch r = Some b)")
    case True
    then obtain r b where r: "res = Some r" "StatusCode r = 200" "Batch r = Some b" by blast
    from Cons.prems(1) True r reply
    have "fetch_loop request_ok (next_url (Header r)) script
            (sent0 @ filter (\<lambda>issue. IsPR issue = None) b) (reqs0 @ [url])
          = Some (sent, reqs, e, rest)"
      by simp
    moreover from Cons.prems(2)
    have "\<forall>i \<in> set (sent0 @ filter (\<lambda>issue. IsPR issue = None) b). IsPR i = None"
      by auto
    ultimately show ?thesis by (rule Cons.IH)
  next
    case False
    with Cons.prems reply show ?thesis
      by (auto split: if_splits option.splits)
  qed
qed

lemma AssignedToTheTeam_IsPR:
  "\<forall>i \<in> set issues. IsPR i = None \<Longrightarrow> \<forall>i \<in> set (AssignedToTheTeam issues members). IsPR i = None"
  by (induction issues) (auto simp: Let_def resolve_author_def split: option.splits)

text \<open>
  C8. However the fetcher ends, no item it has sent carries a pull-request sub-object;
  so none reaches the filter stage, and none leaves it for the reconciler.
\<close>

theorem fetchGitHubIssues_drops_pull_requests:
  "fetchGitHubIssues request_ok script = Some (sent, reqs, e, rest) \<Longrightarrow>
   (\<forall>i \<in> set sent. IsPR i = None) \<and>
   (\<forall>i \<in> set (AssignedToTheTeam sent members). IsPR i = None)"
  using fetch_loop_no_PR [of request_ok issues_url script "[]" "[]" sent reqs e rest]
    AssignedToTheTeam_IsPR [of sent members]
  by (simp add: fetchGitHubIssues_def)

text \<open>A page with a pull request and an issue: only the issue is sent.\<close>

theorem fetchGitHubIssues_drops_pull_requests_witness:
  "fetchGitHubIssues (\<lambda>url. True)
     [reply_of (sample_page []
        [sample_item 3 ''open'' ''alice-gh'' (Some ''{}''),
         sample_item 4 ''open'' ''alice-gh'' None])]
   = Some ([sample_item 4 ''open'' ''alice-gh'' None], [issues_url], Closed, []) \<and>
   list_all (\<lambda>i. IsPR i = None) [sample_item 4 ''open'' ''alice-gh'' None] \<and>
   list_all (\<lambda>i. IsPR i = None)
     (AssignedToTheTeam [sample_item 4 ''open'' ''alice-gh'' None] sample_team)"
proof -
  have r: "fetchGitHubIssues (\<lambda>url. True)
     [reply_of (sample_page []
        [sample_item 3 ''open'' ''alice-gh'' (Some ''{}''),
         sample_item 4 ''open'' ''alice-gh'' None])]
   = Some ([sample_item 4 ''open'' ''alice-gh'' None], [issues_url], Closed, [])"
    by (simp add: fetchGitHubIssues_def issues_url_def reply_of_def sample_page_def
        sample_item_def next_url_def Header_Get_def)
  from fetchGitHubIssues_drops_pull_requests [OF r, of sample_team] r show ?thesis
    by (simp add: list_all_iff)
qed

section \<open>The filter stage\<close>

lemma AssignedToTheTeam_append:
  "AssignedToTheTeam (xs @ ys) members = AssignedToTheTeam xs members @ AssignedToTheTeam ys members"
  by (induction xs) (simp_all add: Let_def split: option.splits)

lemma Assignee_resolve_author [simp]: "Assignee (resolve_author members i) = Assignee i"
  by (simp add: resolve_author_def split: option.splits)

lemma resolve_author_fields [simp]:
  "Number (resolve_author members i) = Number i"
  "Title (resolve_author members i) = Title i"
  "Body (resolve_author members i) = Body i"
  "URL (resolve_author members i) = URL i"
  "Status (resolve_author members i) = Status i"
  "IsPR (resolve_author members i) = IsPR i"
  by (simp_all add: resolve_author_def split: option.splits)

lemma AssignedToTheTeam_resolved:
  "o' \<in> set (AssignedToTheTeam issues members) \<Longrightarrow>
   \<exists>p. PersonByGithubHandle members (Handle (Assignee o')) = Some p \<and> JiraUsername (Assignee o') = Jira p"
  by (induction issues) (auto simp: Let_def split: option.splits)

lemma PersonByGithubHandle_Some:
  "PersonByGithubHandle people h = Some p \<Longrightarrow> p \<in> set people \<and> Github p = h"
  by (induction people) (auto split: if_splits)

lemma AssignedToTheTeam_excluded:
  assumes "PersonByGithubHandle members (Handle (Assignee i)) = None"
  shows "AssignedToTheTeam (xs @ i # ys) members = AssignedToTheTeam (xs @ ys) members"
proof -
  from assms have "AssignedToTheTeam (i # ys) members = AssignedToTheTeam ys members"
    by (simp add: Let_def)
  then show ?thesis
    by (simp add: AssignedToTheTeam_append)
qed

lemma AssignedToTheTeam_emitted:
  assumes p: "PersonByGithubHandle members (Handle (Assignee i)) = Some p"
  shows "\<exists>i'. AssignedToTheTeam (xs @ i # ys) members
              = AssignedToTheTeam xs members @ i' # AssignedToTheTeam ys members \<and>
            Assignee i' = \<lparr>Handle = Handle (Assignee i), JiraUsername = Jira p\<rparr> \<and>
            Number i' = Number i \<and> Title i' = Title i \<and> Body i' = Body i \<and>
            URL i' = URL i \<and> Status i' = Status i \<and> IsPR i' = IsPR i"
proof -
  let ?i = "(resolve_author members i)\<lparr>Assignee := (Assignee i)\<lparr>JiraUsername := Jira p\<rparr>\<rparr>"
  from p have "AssignedToTheTeam (i # ys) members = ?i # AssignedToTheTeam ys members"
    by (simp add: Let_def)
  then have "AssignedToTheTeam (xs @ i # ys) members
             = AssignedToTheTeam xs members @ ?i # AssignedToTheTeam ys members"
    by (simp add: AssignedToTheTeam_append)
  moreover have "Assignee ?i = \<lparr>Handle = Handle (Assignee i), JiraUsername = Jira p\<rparr>"
    by simp
  ultimately show ?thesis
    by (intro exI [of _ ?i]) simp
qed

lemma teamMembers_resolved:
  assumes "PersonByGithubHandle (teamMembers people) h = Some p"
  shows "TeamMember p \<and> Github p = h \<and> p \<in> set people"
proof -
  from assms have "p \<in> set (teamMembers people) \<and> Github p = h"
    by (rule PersonByGithubHandle_Some)
  then show ?thesis
    by (simp add: teamMembers_def)
qed

lemma PersonByGithubHandle_find:
  "PersonByGithubHandle people h = find (\<lambda>p. Github p = h) people"
  by (induction people) simp_all

lemma PersonByGithubHandle_None:
  "PersonByGithubHandle people h = None \<longleftrightarrow> (\<forall>p \<in> set people. Github p \<noteq> h)"
  by (induction people) auto

lemma PersonByGithubHandle_complete:
  assumes "p \<in> set people" "Github p = h"
  shows "\<exists>q. PersonByGithubHandle people h = Some q \<and> q \<in> set people \<and> Github q = h"
proof -
  from assms have "PersonByGithubHandle people h \<noteq> None"
    by (auto simp: PersonByGithubHandle_None)
  then obtain q where "PersonByGithubHandle people h = Some q" by blast
  with PersonByGithubHandle_Some [of people h q] show ?thesis by blast
qed

lemma teamMembers_find:
  "PersonByGithubHandle (teamMembers people) h
   = find (\<lambda>p. TeamMember p \<and> Github p = h) people"
  unfolding teamMembers_def
  by (induction people) simp_all

lemma AssignedToTheTeam_not_on_roster:
  assumes "\<forall>p \<in> set members. Github p \<noteq> Handle (Assignee i)"
  shows "AssignedToTheTeam (xs @ i # ys) members = AssignedToTheTeam (xs @ ys) members"
  using assms AssignedToTheTeam_excluded [of members i xs ys]
  by (simp add: PersonByGithubHandle_None)

lemma AssignedToTheTeam_on_roster:
  assumes "p \<in> set members" "Github p = Handle (Assignee i)"
  shows "\<exists>i' q. q \<in> set members \<and> Github q = Handle (Assignee i) \<and>
            AssignedToTheTeam (xs @ i # ys) members
              = AssignedToTheTeam xs members @ i' # AssignedToTheTeam ys members \<and>
            Assignee i' = \<lparr>Handle = Handle (Assignee i), JiraUsername = Jira q\<rparr> \<and>
            Number i' = Number i \<and> Title i' = Title i \<and> Body i' = Body i \<and>
            URL i' = URL i \<and> Status i' = Status i \<and> IsPR i' = IsPR i"
proof -
  from PersonByGithubHandle_complete [OF assms] obtain q where
    q: "PersonByGithubHandle members (Handle (Assignee i)) = Some q" "q \<in> set members"
      "Github q = Handle (Assignee i)"
    by blast
  from AssignedToTheTeam_emitted [OF q(1), of xs ys] q(2,3) show ?thesis
    by blast
qed

lemma AssignedToTheTeam_sent_on_roster:
  assumes "i' \<in> set (AssignedToTheTeam issues members)"
  shows "\<exists>q \<in> set members. Github q = Handle (Assignee i') \<and> JiraUsername (Assignee i') = Jira q"
proof -
  from AssignedToTheTeam_resolved [OF assms] obtain q where
    q: "PersonByGithubHandle members (Handle (Assignee i')) = Some q"
      "JiraUsername (Assignee i') = Jira q"
    by blast
  from PersonByGithubHandle_Some [OF q(1)] q(2) show ?thesis by blast
qed

text \<open>
  C9. The lookup returns the first person on the roster with the handle asked for, and
  the roster \<^verbatim>\<open>main\<close> passes holds the loaded people that are team members. An item
  whose assignee handle no person on the roster has is excluded: the stage sends what
  it would send without the item. An item whose assignee handle some person on the
  roster has is sent, in its place, with the handle kept, the tracker name of a person
  on the roster with that handle filled in, and its other fields unchanged. Every item
  sent has an assignee on the roster and carries that person's tracker name. The same
  holds when stated through the lookup's answer.
\<close>

theorem AssignedToTheTeam_excludes_and_resolves:
  "PersonByGithubHandle members h = find (\<lambda>p. Github p = h) members \<and>
   PersonByGithubHandle (teamMembers people) h
     = find (\<lambda>p. TeamMember p \<and> Github p = h) people \<and>
   ((\<forall>p \<in> set members. Github p \<noteq> Handle (Assignee i)) \<longrightarrow>
      AssignedToTheTeam (xs @ i # ys) members = AssignedToTheTeam (xs @ ys) members) \<and>
   (r \<in> set members \<and> Github r = Handle (Assignee i) \<longrightarrow>
      (\<exists>i' q. q \<in> set members \<and> Github q = Handle (Assignee i) \<and>
            AssignedToTheTeam (xs @ i # ys) members
              = AssignedToTheTeam xs members @ i' # AssignedToTheTeam ys members \<and>
            Assignee i' = \<lparr>Handle = Handle (Assignee i), JiraUsername = Jira q\<rparr> \<and>
            Number i' = Number i \<and> Title i' = Title i \<and> Body i' = Body i \<and>
            URL i' = URL i \<and> Status i' = Status i \<and> IsPR i' = IsPR i)) \<and>
   (\<forall>i' \<in> set (AssignedToTheTeam issues members).
      \<exists>q \<in> set members. Github q = Handle (Assignee i') \<and> JiraUsername (Assignee i') = Jira q) \<and>
   (PersonByGithubHandle members (Handle (Assignee i)) = None \<longrightarrow>
      AssignedToTheTeam (xs @ i # ys) members = AssignedToTheTeam (xs @ ys) members) \<and>
   (PersonByGithubHandle members (Handle (Assignee i)) = Some p \<longrightarrow>
      (\<exists>i'. AssignedToTheTeam (xs @ i # ys) members
              = AssignedToTheTeam xs members @ i' # AssignedToTheTeam ys members \<and>
            Assignee i' = \<lparr>Handle = Handle (Assignee i), JiraUsername = Jira p\<rparr> \<and>
            Number i' = Number i \<and> Title i' = Title i \<and> Body i' = Body i \<and>
            URL i' = URL i \<and> Status i' = Status i \<and> IsPR i' = IsPR i)) \<and>
   (\<forall>i' \<in> set (AssignedToTheTeam issues members).
      \<exists>q. PersonByGithubHandle members (Handle (Assignee i')) = Some q \<and>
          JiraUsername (Assignee i') = Jira q) \<and>
   (PersonByGithubHandle (teamMembers people) h = Some q \<longrightarrow>
      TeamMember q \<and> Github q = h \<and> q \<in> set people)"
proof -
  note a = PersonByGithubHandle_find [of members h]
  note b = teamMembers_find [of people h]
  note c = AssignedToTheTeam_not_on_roster [of members i xs ys]
  note d = AssignedToTheTeam_on_roster [of r members i xs ys]
  note e = AssignedToTheTeam_sent_on_roster [of _ issues members]
  note f = AssignedToTheTeam_excluded [of members i xs ys]
  note g = AssignedToTheTeam_emitted [of members i p xs ys]
  note h = AssignedToTheTeam_resolved [of _ issues members]
  note k = teamMembers_resolved [of people h q]
  have c': "(\<forall>p \<in> set members. Github p \<noteq> Handle (Assignee i)) \<longrightarrow>
      AssignedToTheTeam (xs @ i # ys) members = AssignedToTheTeam (xs @ ys) members"
    using c by blast
  have d': "r \<in> set members \<and> Github r = Handle (Assignee i) \<longrightarrow>
      (\<exists>i' q. q \<in> set members \<and> Github q = Handle (Assignee i) \<and>
            AssignedToTheTeam (xs @ i # ys) members
              = AssignedToTheTeam xs members @ i' # AssignedToTheTeam ys members \<and>
            Assignee i' = \<lparr>Handle = Handle (Assignee i), JiraUsername = Jira q\<rparr> \<and>
            Number i' = Number i \<and> Title i' = Title i \<and> Body i' = Body i \<and>
            URL i' = URL i \<and> Status i' = Status i \<and> IsPR i' = IsPR i)"
    using d by blast
  have e': "\<forall>i' \<in> set (AssignedToTheTeam issues members).
      \<exists>q \<in> set members. Github q = Handle (Assignee i') \<and> JiraUsername (Assignee i') = Jira q"
    using e by blast
  have f': "PersonByGithubHandle members (Handle (Assignee i)) = None \<longrightarrow>
      AssignedToTheTeam (xs @ i # ys) members = AssignedToTheTeam (xs @ ys) members"
    using f by blast
  have g': "PersonByGithubHandle members (Handle (Assignee i)) = Some p \<longrightarrow>
      (\<exists>i'. AssignedToTheTeam (xs @ i # ys) members
              = AssignedToTheTeam xs members @ i' # AssignedToTheTeam ys members \<and>
            Assignee i' = \<lparr>Handle = Handle (Assignee i), JiraUsername = Jira p\<rparr> \<and>
            Number i' = Number i \<and> Title i' = Title i \<and> Body i' = Body i \<and>
            URL i' = URL i \<and> Status i' = Status i \<and> IsPR i' = IsPR i)"
    using g by blast
  have h': "\<forall>i' \<in> set (AssignedToTheTeam issues members).
      \<exists>q. PersonByGithubHandle members (Handle (Assignee i')) = Some q \<and>
          JiraUsername (Assignee i') = Jira q"
    using h by blast
  have k': "PersonByGithubHandle (teamMembers people) h = Some q \<longrightarrow>
      TeamMember q \<and> Github q = h \<and> q \<in> set people"
    using k by blast
  from a b c' d' e' f' g' h' k' show ?thesis
    by (intro conjI)
qed

text \<open>
  The roster built from the sample people is Carol and Alice. An item assigned to
  Alice, the second person on the roster, is sent with her tracker name; an item
  assigned to Bob, who is among the people but not on the team, and an item assigned to
  a stranger are excluded.
\<close>

theorem AssignedToTheTeam_excludes_and_resolves_witness:
  "teamMembers sample_people = tl sample_people \<and>
   PersonByGithubHandle (teamMembers sample_people) ''alice-gh'' = Some (sample_people ! 2) \<and>
   PersonByGithubHandle (teamMembers sample_people) ''bob-gh'' = None \<and>
   AssignedToTheTeam
     ([sample_item 8 ''open'' ''stranger'' None] @ sample_item 10 ''open'' ''bob-gh'' None
        # [sample_item 9 ''closed'' ''alice-gh'' None])
     (teamMembers sample_people)
   = AssignedToTheTeam
       ([sample_item 8 ''open'' ''stranger'' None] @ [sample_item 9 ''closed'' ''alice-gh'' None])
       (teamMembers sample_people) \<and>
   (\<exists>i' q. q \<in> set (teamMembers sample_people) \<and> Github q = ''alice-gh'' \<and>
        AssignedToTheTeam
          ([sample_item 8 ''open'' ''stranger'' None] @ sample_item 9 ''closed'' ''alice-gh'' None # [])
          (teamMembers sample_people)
        = AssignedToTheTeam [sample_item 8 ''open'' ''stranger'' None] (teamMembers sample_people)
            @ i' # AssignedToTheTeam [] (teamMembers sample_people) \<and>
        Assignee i' = \<lparr>Handle = ''alice-gh'', JiraUsername = Jira q\<rparr> \<and>
        Number i' = 9 \<and> Status i' = ''closed'') \<and>
   AssignedToTheTeam
     [sample_item 8 ''open'' ''stranger'' None, sample_item 10 ''open'' ''bob-gh'' None,
      sample_item 9 ''closed'' ''alice-gh'' None]
     (teamMembers sample_people)
   = [(sample_item 9 ''closed'' ''alice-gh'' None)
        \<lparr>Assignee := \<lparr>Handle = ''alice-gh'', JiraUsername = ''alice@example.com''\<rparr>\<rparr>]"
proof -
  let ?m = "teamMembers sample_people"
  let ?i8 = "sample_item 8 ''open'' ''stranger'' None"
  let ?i9 = "sample_item 9 ''closed'' ''alice-gh'' None"
  let ?i10 = "sample_item 10 ''open'' ''bob-gh'' None"
  have tm: "?m = tl sample_people"
    by (simp add: teamMembers_def sample_people_def)
  have v: "Handle (Assignee ?i8) = ''stranger''" "Handle (Assignee ?i9) = ''alice-gh''"
    "Handle (Assignee ?i10) = ''bob-gh''" "Number ?i9 = 9" "Status ?i9 = ''closed''"
    by (simp_all add: sample_item_def)
  have nb: "\<forall>p \<in> set ?m. Github p \<noteq> Handle (Assignee ?i10)"
    by (simp add: teamMembers_def v sample_people_def)
  have al: "sample_people ! 2 \<in> set ?m \<and> Github (sample_people ! 2) = Handle (Assignee ?i9)"
    by (simp add: teamMembers_def v sample_people_def)
  note t10 = AssignedToTheTeam_excludes_and_resolves
    [of ?m "''alice-gh''" sample_people ?i10 "[?i8]" "[?i9]" "sample_people ! 2" "[]"
        "sample_people ! 2" "sample_people ! 2"]
  note t9 = AssignedToTheTeam_excludes_and_resolves
    [of ?m "''bob-gh''" sample_people ?i9 "[?i8]" "[]" "sample_people ! 2" "[]"
        "sample_people ! 2" "sample_people ! 2"]
  from t10 have fa: "PersonByGithubHandle ?m ''alice-gh''
                     = find (\<lambda>p. TeamMember p \<and> Github p = ''alice-gh'') sample_people"
    by blast
  from t9 have fb: "PersonByGithubHandle ?m ''bob-gh''
                    = find (\<lambda>p. TeamMember p \<and> Github p = ''bob-gh'') sample_people"
    by blast
  from fa have a: "PersonByGithubHandle ?m ''alice-gh'' = Some (sample_people ! 2)"
    by (simp add: sample_people_def)
  from fb have b: "PersonByGithubHandle ?m ''bob-gh'' = None"
    by (simp add: sample_people_def)
  from t10 nb have c: "AssignedToTheTeam ([?i8] @ ?i10 # [?i9]) ?m
                       = AssignedToTheTeam ([?i8] @ [?i9]) ?m"
    by blast
  from t9 al have d: "\<exists>i' q. q \<in> set ?m \<and> Github q = ''alice-gh'' \<and>
        AssignedToTheTeam ([?i8] @ ?i9 # []) ?m
        = AssignedToTheTeam [?i8] ?m @ i' # AssignedToTheTeam [] ?m \<and>
        Assignee i' = \<lparr>Handle = ''alice-gh'', JiraUsername = Jira q\<rparr> \<and>
        Number i' = 9 \<and> Status i' = ''closed''"
    unfolding v by blast
  have e: "AssignedToTheTeam [?i8, ?i10, ?i9] ?m
           = [?i9\<lparr>Assignee := \<lparr>Handle = ''alice-gh'', JiraUsername = ''alice@example.com''\<rparr>\<rparr>]"
    by (simp add: teamMembers_def sample_people_def sample_item_def resolve_author_def)
  from tm a b c d e show ?thesis
    by (intro conjI)
qed

section \<open>The decision for one item\<close>

lemma Closed_neq_To_Do: "''Closed'' \<noteq> ''To Do''"
  by simp

lemma foldl_pick_transition:
  "foldl pick_transition (a, b) ts = (a', b') \<Longrightarrow>
   ((\<exists>t \<in> set ts. Name t = ''Closed'') \<longrightarrow> (\<exists>t \<in> set ts. Name t = ''Closed'' \<and> b' = ID t)) \<and>
   ((\<exists>t \<in> set ts. Name t = ''To Do'') \<longrightarrow> (\<exists>t \<in> set ts. Name t = ''To Do'' \<and> a' = ID t)) \<and>
   (\<not> (\<exists>t \<in> set ts. Name t = ''Closed'') \<longrightarrow> b' = b) \<and>
   (\<not> (\<exists>t \<in> set ts. Name t = ''To Do'') \<longrightarrow> a' = a)"
proof (induction ts arbitrary: a' b' rule: rev_induct)
  case Nil
  then show ?case by simp
next
  case (snoc t ts)
  obtain a1 b1 where ab: "foldl pick_transition (a, b) ts = (a1, b1)"
    by (cases "foldl pick_transition (a, b) ts")
  note IH = snoc.IH [OF ab]
  from snoc.prems ab have step: "pick_transition (a1, b1) t = (a', b')"
    by simp
  consider (closed) "Name t = ''Closed''"
    | (todo) "Name t \<noteq> ''Closed''" "Name t = ''To Do''"
    | (other) "Name t \<noteq> ''Closed''" "Name t \<noteq> ''To Do''"
    by blast
  then show ?case
  proof cases
    case closed
    with step have eq: "a' = a1" "b' = ID t"
      by (simp_all add: pick_transition_def)
    from closed have nt: "Name t \<noteq> ''To Do''"
      using Closed_neq_To_Do by simp
    from IH eq closed nt show ?thesis
      by (simp add: bex_Un)
  next
    case todo
    with step have eq: "a' = ID t" "b' = b1"
      by (simp_all add: pick_transition_def)
    from IH eq todo show ?thesis
      by (simp add: bex_Un)
  next
    case other
    with step have eq: "a' = a1" "b' = b1"
      by (simp_all add: pick_transition_def)
    from IH eq other show ?thesis
      by (simp add: bex_Un)
  qed
qed

lemma transition_ids_named:
  "((\<exists>t \<in> set ts. Name t = ''Closed'') \<longrightarrow>
      (\<exists>t \<in> set ts. Name t = ''Closed'' \<and> snd (transition_ids ts) = ID t)) \<and>
   ((\<exists>t \<in> set ts. Name t = ''To Do'') \<longrightarrow>
      (\<exists>t \<in> set ts. Name t = ''To Do'' \<and> fst (transition_ids ts) = ID t))"
proof -
  obtain a' b' where ab: "foldl pick_transition ([], []) ts = (a', b')"
    by (cases "foldl pick_transition ([], []) ts")
  from foldl_pick_transition [OF ab] ab show ?thesis
    by (simp add: transition_ids_def)
qed

lemma closed_neq_open: "''closed'' \<noteq> ''open''"
  by simp

text \<open>What the recording client does with each call.\<close>

lemma recording_calls:
  "Issue_Create (recording c) issue (log, w)
   = (fst (Issue_Create c issue w), (log @ [CreateCall issue], snd (Issue_Create c issue w)))"
  "Issue_GetTransitions (recording c) key (log, w)
   = (fst (Issue_GetTransitions c key w),
      (log @ [GetTransitionsCall key], snd (Issue_GetTransitions c key w)))"
  "Issue_DoTransition (recording c) key t (log, w)
   = (fst (Issue_DoTransition c key t w),
      (log @ [DoTransitionCall key t], snd (Issue_DoTransition c key t w)))"
  by (simp_all add: recording_def)

lemma createJiraIssue_state:
  "snd (createJiraIssue c issue w) = snd (Issue_Create c (new_issue issue) w)"
  by (simp add: createJiraIssue_def split: prod.splits option.splits)

lemma recorded_create:
  assumes "known (Number issue) = None"
  shows "snd (reconcile_item (recording c) known issue (log, w))
         = (log @ [CreateCall (new_issue issue)], snd (Issue_Create c (new_issue issue) w))"
proof -
  have "snd (reconcile_item (recording c) known issue (log, w))
        = snd (createJiraIssue (recording c) issue (log, w))"
    using assms by (simp add: reconcile_item_def split: prod.splits sum.splits)
  then show ?thesis
    by (simp add: createJiraIssue_state recording_calls)
qed

lemma new_issue_summary:
  "map_option jira_Summary (jira_Fields (new_issue issue))
   = Some (''GH-orc-'' @ Itoa (Number issue) @ '': '' @ Title issue)"
  by (simp add: new_issue_def issue_summary_def)

lemma recorded_close:
  assumes "known (Number issue) = Some k" "Status issue = ''closed''"
    "KnownStatus k = Some st" "st \<noteq> ''Closed''"
  shows "reconcile_item (recording c) known issue (log, w)
         = (None,
            (log @ [GetTransitionsCall (Key k),
                    DoTransitionCall (Key k)
                      (snd (transition_ids (fst (Issue_GetTransitions c (Key k) w))))],
             snd (Issue_DoTransition c (Key k)
                    (snd (transition_ids (fst (Issue_GetTransitions c (Key k) w))))
                    (snd (Issue_GetTransitions c (Key k) w)))))"
  using assms
  by (simp add: reconcile_item_def recording_calls split: prod.splits)

lemma recorded_reopen:
  assumes "known (Number issue) = Some k" "Status issue = ''open''"
    "KnownStatus k = Some ''Closed''"
  shows "reconcile_item (recording c) known issue (log, w)
         = (None,
            (log @ [GetTransitionsCall (Key k),
                    DoTransitionCall (Key k)
                      (fst (transition_ids (fst (Issue_GetTransitions c (Key k) w))))],
             snd (Issue_DoTransition c (Key k)
                    (fst (transition_ids (fst (Issue_GetTransitions c (Key k) w))))
                    (snd (Issue_GetTransitions c (Key k) w)))))"
proof -
  from assms(2) have "Status issue \<noteq> ''closed''"
    using closed_neq_open by simp
  with assms show ?thesis
    by (simp add: reconcile_item_def recording_calls split: prod.splits)
qed

lemma recorded_noop:
  assumes "known (Number issue) = Some k"
    "\<not> (Status issue = ''closed'' \<and> (\<exists>st. KnownStatus k = Some st \<and> st \<noteq> ''Closed''))"
    "\<not> (Status issue = ''open'' \<and> KnownStatus k = Some ''Closed'')"
  shows "snd (reconcile_item (recording c) known issue (log, w))
         = (log @ [GetTransitionsCall (Key k)], snd (Issue_GetTransitions c (Key k) w))"
proof (cases "Status issue = ''closed''")
  case True
  with assms show ?thesis
    by (cases "KnownStatus k")
      (simp_all add: reconcile_item_def recording_calls split: prod.splits)
next
  case nc: False
  show ?thesis
  proof (cases "Status issue = ''open''")
    case True
    with nc assms show ?thesis
      by (cases "KnownStatus k")
        (simp_all add: reconcile_item_def recording_calls split: prod.splits)
  next
    case False
    with nc assms show ?thesis
      by (simp add: reconcile_item_def recording_calls split: prod.splits)
  qed
qed

text \<open>The loop handles the items one after the other, each in the state the items
  before it have left, and stops at the first panic.\<close>

lemma reconcile_single: "reconcile c known [issue] w = reconcile_item c known issue w"
  by (simp split: prod.splits option.splits)

lemma reconcile_append:
  "reconcile c known (xs @ ys) w
   = (case reconcile c known xs w of
        (Some p, w1) \<Rightarrow> (Some p, w1)
      | (None, w1) \<Rightarrow> reconcile c known ys w1)"
proof (induction xs arbitrary: w)
  case Nil
  then show ?case by simp
next
  case (Cons x xs)
  obtain p w1 where s: "reconcile_item c known x w = (p, w1)"
    by (cases "reconcile_item c known x w")
  show ?case
  proof (cases p)
    case None
    with s Cons.IH [of w1] show ?thesis by simp
  next
    case (Some e)
    with s show ?thesis by simp
  qed
qed

text \<open>
  C2. The statement is about the calls that reach the client and the state the client
  is left in, observed on the recording wrapper of an arbitrary client. For an item
  without an index entry the loop body makes exactly one call, the creation of a ticket
  whose summary is \<^verbatim>\<open>GH-orc-\<close>, the number, a colon, a space and the title, and leaves
  the tracker in the state that this call gives. For an item with an entry it lists the
  transitions and then: applies the transition named \<^verbatim>\<open>Closed\<close> when the item is
  closed and the ticket's status is not \<^verbatim>\<open>Closed\<close>; applies the transition named
  \<^verbatim>\<open>To Do\<close> when the item is open and the ticket's status is \<^verbatim>\<open>Closed\<close>; in both
  cases the tracker is left in the state that the transition call gives; it makes no
  further call in every other case. The identifier applied is that of a transition of
  the wanted name whenever the tracker offers one. The loop does this for each item in
  turn, up to the first panic.
\<close>

theorem reconcile_item_decision:
  "(known (Number issue) = None \<longrightarrow>
      snd (reconcile_item (recording c) known issue (log, w))
        = (log @ [CreateCall (new_issue issue)], snd (Issue_Create c (new_issue issue) w)) \<and>
      map_option jira_Summary (jira_Fields (new_issue issue))
        = Some (''GH-orc-'' @ Itoa (Number issue) @ '': '' @ Title issue)) \<and>
   (known (Number issue) = Some k \<and> Status issue = ''closed'' \<and>
    KnownStatus k = Some st \<and> st \<noteq> ''Closed'' \<longrightarrow>
      reconcile_item (recording c) known issue (log, w)
        = (None,
           (log @ [GetTransitionsCall (Key k),
                   DoTransitionCall (Key k)
                     (snd (transition_ids (fst (Issue_GetTransitions c (Key k) w))))],
            snd (Issue_DoTransition c (Key k)
                   (snd (transition_ids (fst (Issue_GetTransitions c (Key k) w))))
                   (snd (Issue_GetTransitions c (Key k) w)))))) \<and>
   (known (Number issue) = Some k \<and> Status issue = ''open'' \<and>
    KnownStatus k = Some ''Closed'' \<longrightarrow>
      reconcile_item (recording c) known issue (log, w)
        = (None,
           (log @ [GetTransitionsCall (Key k),
                   DoTransitionCall (Key k)
                     (fst (transition_ids (fst (Issue_GetTransitions c (Key k) w))))],
            snd (Issue_DoTransition c (Key k)
                   (fst (transition_ids (fst (Issue_GetTransitions c (Key k) w))))
                   (snd (Issue_GetTransitions c (Key k) w)))))) \<and>
   (known (Number issue) = Some k \<and>
    \<not> (Status issue = ''closed'' \<and> (\<exists>st. KnownStatus k = Some st \<and> st \<noteq> ''Closed'')) \<and>
    \<not> (Status issue = ''open'' \<and> KnownStatus k = Some ''Closed'') \<longrightarrow>
      snd (reconcile_item (recording c) known issue (log, w))
        = (log @ [GetTransitionsCall (Key k)], snd (Issue_GetTransitions c (Key k) w))) \<and>
   ((\<exists>t \<in> set ts. Name t = ''Closed'') \<longrightarrow>
      (\<exists>t \<in> set ts. Name t = ''Closed'' \<and> snd (transition_ids ts) = ID t)) \<and>
   ((\<exists>t \<in> set ts. Name t = ''To Do'') \<longrightarrow>
      (\<exists>t \<in> set ts. Name t = ''To Do'' \<and> fst (transition_ids ts) = ID t)) \<and>
   reconcile (recording c) known [issue] (log, w)
     = reconcile_item (recording c) known issue (log, w) \<and>
   reconcile (recording c) known (xs @ ys) (log, w)
     = (case reconcile (recording c) known xs (log, w) of
          (Some p, s) \<Rightarrow> (Some p, s)
        | (None, s) \<Rightarrow> reconcile (recording c) known ys s)"
  using recorded_create [of known issue c log w] new_issue_summary [of issue]
    recorded_close [of known issue k st c log w]
    recorded_reopen [of known issue k c log w]
    recorded_noop [of known issue k c log w]
    transition_ids_named [of ts]
    reconcile_single [of "recording c" known issue "(log, w)"]
    reconcile_append [of "recording c" known xs ys "(log, w)"]
  by blast

text \<open>The four decisions on sample items, on the recording wrapper of the sample
  tracker: the log and the tickets afterwards.\<close>

lemma sample_ids: "transition_ids sample_workflow = (''11'', ''31'')"
  by (simp add: transition_ids_def sample_workflow_def pick_transition_def)

lemma tracker_calls:
  "Issue_Create (tracker initial workflow) issue tickets
   = ((Some (created_ticket initial issue tickets), Some \<lparr>StatusCode = 201, Header = []\<rparr>, None),
      tickets @ [created_ticket initial issue tickets])"
  "Issue_GetTransitions (tracker initial workflow) key tickets = (workflow, tickets)"
  "Issue_DoTransition (tracker initial workflow) key transition tickets
   = (case find (\<lambda>t. ID t = transition) workflow of
        None \<Rightarrow> (Some (TransportError ''transition refused''), tickets)
      | Some t \<Rightarrow> (None, map (set_status key (Name t)) tickets))"
  by (simp_all add: tracker_def)

lemma sample_transitions:
  "Issue_DoTransition (tracker initial sample_workflow) key ''31'' tickets
   = (None, map (set_status key ''Closed'') tickets)"
  "Issue_DoTransition (tracker initial sample_workflow) key ''11'' tickets
   = (None, map (set_status key ''To Do'') tickets)"
  by (simp_all add: tracker_calls sample_workflow_def)

lemma set_status_sample:
  "set_status key name (sample_ticket key summary status) = sample_ticket key summary name"
  by (simp add: set_status_def sample_ticket_def)

theorem reconcile_item_decision_witness:
  "snd (reconcile_item (recording (tracker ''New'' sample_workflow)) Map.empty
          (sample_item 42 ''closed'' ''alice-gh'' None) ([], []))
   = ([CreateCall (new_issue (sample_item 42 ''closed'' ''alice-gh'' None))],
      [created_ticket ''New'' (new_issue (sample_item 42 ''closed'' ''alice-gh'' None)) []]) \<and>
   map_option jira_Summary (jira_Fields (new_issue (sample_item 42 ''closed'' ''alice-gh'' None)))
   = Some ''GH-orc-42: Port is not deleted'' \<and>
   reconcile_item (recording (tracker ''New'' sample_workflow))
     [7 \<mapsto> \<lparr>Key = ''OSASINFRA-3'', KnownStatus = Some ''In Progress''\<rparr>]
     (sample_item 7 ''closed'' ''alice-gh'' None)
     ([], [sample_ticket ''OSASINFRA-3'' ''GH-orc-7: Port is not deleted'' ''In Progress''])
   = (None,
      ([GetTransitionsCall ''OSASINFRA-3'', DoTransitionCall ''OSASINFRA-3'' ''31''],
       [sample_ticket ''OSASINFRA-3'' ''GH-orc-7: Port is not deleted'' ''Closed''])) \<and>
   reconcile_item (recording (tracker ''New'' sample_workflow))
     [7 \<mapsto> \<lparr>Key = ''OSASINFRA-3'', KnownStatus = Some ''Closed''\<rparr>]
     (sample_item 7 ''open'' ''alice-gh'' None)
     ([], [sample_ticket ''OSASINFRA-3'' ''GH-orc-7: Port is not deleted'' ''Closed''])
   = (None,
      ([GetTransitionsCall ''OSASINFRA-3'', DoTransitionCall ''OSASINFRA-3'' ''11''],
       [sample_ticket ''OSASINFRA-3'' ''GH-orc-7: Port is not deleted'' ''To Do''])) \<and>
   snd (reconcile_item (recording (tracker ''New'' sample_workflow))
          [7 \<mapsto> \<lparr>Key = ''OSASINFRA-3'', KnownStatus = Some ''Closed''\<rparr>]
          (sample_item 7 ''closed'' ''alice-gh'' None)
          ([], [sample_ticket ''OSASINFRA-3'' ''GH-orc-7: Port is not deleted'' ''Closed'']))
   = ([GetTransitionsCall ''OSASINFRA-3''],
      [sample_ticket ''OSASINFRA-3'' ''GH-orc-7: Port is not deleted'' ''Closed''])"
proof -
  let ?T = "tracker ''New'' sample_workflow"
  let ?i42 = "sample_item 42 ''closed'' ''alice-gh'' None"
  have i42: "Number ?i42 = 42" "Title ?i42 = ''Port is not deleted''"
    by (simp_all add: sample_item_def)
  have it: "Itoa 42 = ''42''"
    by (simp add: Itoa_def digits_of_nat.simps digit_char_def)
  have i7: "\<And>s. Number (sample_item 7 s ''alice-gh'' None) = 7"
    "\<And>s. Status (sample_item 7 s ''alice-gh'' None) = s"
    by (simp_all add: sample_item_def)
  note ev = i7 tracker_calls(1,2) sample_ids sample_transitions set_status_sample
  have a: "snd (reconcile_item (recording ?T) Map.empty ?i42 ([], []))
      = ([CreateCall (new_issue ?i42)], [created_ticket ''New'' (new_issue ?i42) []]) \<and>
    map_option jira_Summary (jira_Fields (new_issue ?i42))
      = Some ''GH-orc-42: Port is not deleted''"
    using reconcile_item_decision
      [of Map.empty ?i42 ?T "[]" "[]" "\<lparr>Key = [], KnownStatus = None\<rparr>" "[]" "[]" "[]" "[]"]
    by (simp add: i42 it tracker_calls(1))
  have b: "reconcile_item (recording ?T)
     [7 \<mapsto> \<lparr>Key = ''OSASINFRA-3'', KnownStatus = Some ''In Progress''\<rparr>]
     (sample_item 7 ''closed'' ''alice-gh'' None)
     ([], [sample_ticket ''OSASINFRA-3'' ''GH-orc-7: Port is not deleted'' ''In Progress''])
   = (None,
      ([GetTransitionsCall ''OSASINFRA-3'', DoTransitionCall ''OSASINFRA-3'' ''31''],
       [sample_ticket ''OSASINFRA-3'' ''GH-orc-7: Port is not deleted'' ''Closed'']))"
    using reconcile_item_decision
      [of "[7 \<mapsto> \<lparr>Key = ''OSASINFRA-3'', KnownStatus = Some ''In Progress''\<rparr>]"
          "sample_item 7 ''closed'' ''alice-gh'' None" ?T "[]"
          "[sample_ticket ''OSASINFRA-3'' ''GH-orc-7: Port is not deleted'' ''In Progress'']"
          "\<lparr>Key = ''OSASINFRA-3'', KnownStatus = Some ''In Progress''\<rparr>" "''In Progress''"
          "[]" "[]" "[]"]
    by (simp add: ev)
  have c: "reconcile_item (recording ?T)
     [7 \<mapsto> \<lparr>Key = ''OSASINFRA-3'', KnownStatus = Some ''Closed''\<rparr>]
     (sample_item 7 ''open'' ''alice-gh'' None)
     ([], [sample_ticket ''OSASINFRA-3'' ''GH-orc-7: Port is not deleted'' ''Closed''])
   = (None,
      ([GetTransitionsCall ''OSASINFRA-3'', DoTransitionCall ''OSASINFRA-3'' ''11''],
       [sample_ticket ''OSASINFRA-3'' ''GH-orc-7: Port is not deleted'' ''To Do'']))"
    using reconcile_item_decision
      [of "[7 \<mapsto> \<lparr>Key = ''OSASINFRA-3'', KnownStatus = Some ''Closed''\<rparr>]"
          "sample_item 7 ''open'' ''alice-gh'' None" ?T "[]"
          "[sample_ticket ''OSASINFRA-3'' ''GH-orc-7: Port is not deleted'' ''Closed'']"
          "\<lparr>Key = ''OSASINFRA-3'', KnownStatus = Some ''Closed''\<rparr>" "''Closed''"
          "[]" "[]" "[]"]
    by (simp add: ev)
  have d: "snd (reconcile_item (recording ?T)
          [7 \<mapsto> \<lparr>Key = ''OSASINFRA-3'', KnownStatus = Some ''Closed''\<rparr>]
          (sample_item 7 ''closed'' ''alice-gh'' None)
          ([], [sample_ticket ''OSASINFRA-3'' ''GH-orc-7: Port is not deleted'' ''Closed'']))
   = ([GetTransitionsCall ''OSASINFRA-3''],
      [sample_ticket ''OSASINFRA-3'' ''GH-orc-7: Port is not deleted'' ''Closed''])"
    using reconcile_item_decision
      [of "[7 \<mapsto> \<lparr>Key = ''OSASINFRA-3'', KnownStatus = Some ''Closed''\<rparr>]"
          "sample_item 7 ''closed'' ''alice-gh'' None" ?T "[]"
          "[sample_ticket ''OSASINFRA-3'' ''GH-orc-7: Port is not deleted'' ''Closed'']"
          "\<lparr>Key = ''OSASINFRA-3'', KnownStatus = Some ''Closed''\<rparr>" "''Closed''"
          "[]" "[]" "[]"]
    by (simp add: ev)
  from a b c d show ?thesis by blast
qed

section \<open>Numbers, summaries and the pattern\<close>

lemma digit_char_cases:
  assumes "d < 10"
  shows "is_digit (digit_char d) \<and> digit_val (digit_char d) = int d \<and>
         digit_char d \<noteq> CHR ''-'' \<and> digit_char d \<noteq> CHR ''+''"
proof -
  from assms have "d \<in> {0, 1, 2, 3, 4, 5, 6, 7, 8, 9}"
    by auto
  then show ?thesis
    by (auto simp: digit_char_def is_digit_def digit_val_def)
qed

lemma digits_val_snoc: "digits_val (ds @ [c]) = digits_val ds * 10 + digit_val c"
  by (simp add: digits_val_def)

lemma digits_of_nat_props:
  "digits_of_nat n \<noteq> [] \<and> list_all is_digit (digits_of_nat n) \<and>
   digits_val (digits_of_nat n) = int n"
proof (induction n rule: digits_of_nat.induct)
  case (1 n)
  show ?case
  proof (cases "n < 10")
    case True
    then have "digits_of_nat n = [digit_char n]"
      by (simp add: digits_of_nat.simps)
    with digit_char_cases [OF True] show ?thesis
      by (simp add: digits_val_def)
  next
    case False
    then have eq: "digits_of_nat n = digits_of_nat (n div 10) @ [digit_char (n mod 10)]"
      by (subst digits_of_nat.simps) simp
    have m: "n mod 10 < 10" by simp
    have dm: "int (n div 10) * 10 + int (n mod 10) = int n"
      by presburger
    from "1.IH" [OF False] digit_char_cases [OF m] eq dm show ?thesis
      by (simp add: digits_val_snoc)
  qed
qed

lemma hd_digits_of_nat: "is_digit (hd (digits_of_nat n))"
proof -
  from digits_of_nat_props [of n] show ?thesis
    by (cases "digits_of_nat n") simp_all
qed

lemma is_digit_not_sign: "is_digit c \<Longrightarrow> c \<noteq> CHR ''-'' \<and> c \<noteq> CHR ''+'' \<and> c \<noteq> CHR '':''"
  by (auto simp: is_digit_def)

lemma Atoi_Itoa:
  assumes "0 \<le> n" "n < 2 ^ 63"
  shows "Atoi (Itoa n) = (n, None)"
proof -
  let ?ds = "digits_of_nat (nat n)"
  from assms have it: "Itoa n = ?ds" by (simp add: Itoa_def)
  note p = digits_of_nat_props [of "nat n"]
  from is_digit_not_sign [OF hd_digits_of_nat [of "nat n"]]
  have hd: "hd ?ds \<noteq> CHR ''-''" "hd ?ds \<noteq> CHR ''+''" by simp_all
  from p assms have v: "digits_val ?ds = n" by simp
  from p hd v assms show ?thesis
    unfolding it Atoi_def by (simp add: Let_def)
qed

lemma takeWhile_digits:
  assumes "list_all is_digit ds"
  shows "takeWhile is_digit (ds @ CHR '':'' # rest) = ds \<and>
         dropWhile is_digit (ds @ CHR '':'' # rest) = CHR '':'' # rest"
proof -
  have nd: "\<not> is_digit CHR '':''" by (simp add: is_digit_def)
  from assms have all: "\<forall>c \<in> set ds. is_digit c" by (simp add: list_all_iff)
  from all nd show ?thesis
    by (simp add: takeWhile_append2 dropWhile_append2)
qed

lemma ghIssueNumber_here_tag:
  assumes "ds \<noteq> []" "list_all is_digit ds"
  shows "ghIssueNumber_here (''GH-orc-'' @ ds @ '': '' @ rest) = Some ds"
proof -
  have d: "drop 7 (''GH-orc-'' @ ds @ '': '' @ rest) = ds @ CHR '':'' # CHR '' '' # rest"
    by simp
  have pre: "prefix ''GH-orc-'' (''GH-orc-'' @ ds @ '': '' @ rest)"
    by (rule prefixI) simp
  from takeWhile_digits [OF assms(2), of "CHR '' '' # rest"] assms(1) pre show ?thesis
    unfolding ghIssueNumber_here_def d Let_def by simp
qed

lemma ghIssueNumberRegex_tag:
  assumes "ds \<noteq> []" "list_all is_digit ds"
  shows "ghIssueNumberRegex (''GH-orc-'' @ ds @ '': '' @ rest) = Some ds"
proof -
  have "''GH-orc-'' @ ds @ '': '' @ rest = CHR ''G'' # (''H-orc-'' @ ds @ '': '' @ rest)"
    by simp
  moreover have "ghIssueNumberRegex (CHR ''G'' # (''H-orc-'' @ ds @ '': '' @ rest)) = Some ds"
    using ghIssueNumber_here_tag [OF assms, of rest] by simp
  ultimately show ?thesis by simp
qed

lemma ghIssueNumberRegex_summary:
  assumes "0 \<le> Number issue"
  shows "ghIssueNumberRegex (issue_summary issue) = Some (Itoa (Number issue))"
proof -
  from assms have it: "Itoa (Number issue) = digits_of_nat (nat (Number issue))"
    by (simp add: Itoa_def)
  from digits_of_nat_props [of "nat (Number issue)"] show ?thesis
    unfolding issue_summary_def it by (intro ghIssueNumberRegex_tag) simp_all
qed

lemma alreadyKnown_single:
  assumes "jira_Fields t = Some flds" "ghIssueNumberRegex (jira_Summary flds) = Some ds"
    "Atoi ds = (n, None)"
  shows "alreadyKnown [t] m = Inr (m(n \<mapsto> \<lparr>Key = jira_Key t, KnownStatus = jira_Status flds\<rparr>))"
  using assms by simp

text \<open>
  C6. The source repository numbers its items from 1, and the number is a Go \<^verbatim>\<open>int\<close>.
  For every source item with such a number, the summary of the created ticket begins
  with the tag \<^verbatim>\<open>GH-orc-\<close>, the number, a colon and a space; the pattern finds in it
  exactly the digits of the number; these parse back to the number; and a tracker issue
  with this summary is indexed under the number, with its key and status.
\<close>

theorem summary_round_trip:
  assumes "0 \<le> Number issue" "Number issue < 2 ^ 63"
  shows "prefix (''GH-orc-'' @ Itoa (Number issue) @ '': '') (issue_summary issue) \<and>
         map_option jira_Summary (jira_Fields (new_issue issue)) = Some (issue_summary issue) \<and>
         ghIssueNumberRegex (issue_summary issue) = Some (Itoa (Number issue)) \<and>
         Atoi (Itoa (Number issue)) = (Number issue, None) \<and>
         (jira_Fields t = Some flds \<and> jira_Summary flds = issue_summary issue \<longrightarrow>
            alreadyKnown [t] m
            = Inr (m(Number issue \<mapsto> \<lparr>Key = jira_Key t, KnownStatus = jira_Status flds\<rparr>)))"
proof -
  have a: "prefix (''GH-orc-'' @ Itoa (Number issue) @ '': '') (issue_summary issue)"
    unfolding issue_summary_def by (rule prefixI [of _ _ "Title issue"]) simp
  have b: "map_option jira_Summary (jira_Fields (new_issue issue)) = Some (issue_summary issue)"
    by (simp add: new_issue_def)
  note c = ghIssueNumberRegex_summary [OF assms(1)]
  note d = Atoi_Itoa [OF assms]
  have e: "jira_Fields t = Some flds \<and> jira_Summary flds = issue_summary issue \<longrightarrow>
            alreadyKnown [t] m
            = Inr (m(Number issue \<mapsto> \<lparr>Key = jira_Key t, KnownStatus = jira_Status flds\<rparr>))"
    using alreadyKnown_single [of t flds "Itoa (Number issue)" "Number issue" m] c d
    by simp
  from a b c d e show ?thesis by blast
qed

text \<open>Item 42, and the index built from the ticket created for it.\<close>

theorem summary_round_trip_witness:
  "0 \<le> Number (sample_item 42 ''closed'' ''alice-gh'' None) \<and>
   Number (sample_item 42 ''closed'' ''alice-gh'' None) < 2 ^ 63 \<and>
   prefix ''GH-orc-42: '' (issue_summary (sample_item 42 ''closed'' ''alice-gh'' None)) \<and>
   ghIssueNumberRegex (issue_summary (sample_item 42 ''closed'' ''alice-gh'' None)) = Some ''42'' \<and>
   Atoi ''42'' = (42, None) \<and>
   alreadyKnown
     [created_ticket ''New'' (new_issue (sample_item 42 ''closed'' ''alice-gh'' None)) []] Map.empty
   = Inr [42 \<mapsto> \<lparr>Key = ''OSASINFRA-1'', KnownStatus = Some ''New''\<rparr>]"
proof -
  let ?i = "sample_item 42 ''closed'' ''alice-gh'' None"
  let ?t = "created_ticket ''New'' (new_issue ?i) []"
  let ?f = "the (jira_Fields ?t)"
  have n: "Number ?i = 42" by (simp add: sample_item_def)
  have h: "0 \<le> Number ?i" "Number ?i < 2 ^ 63" by (simp_all add: n)
  have it: "Itoa 42 = ''42''" "Itoa 1 = ''1''"
    by (simp_all add: Itoa_def digits_of_nat.simps digit_char_def)
  have t: "jira_Fields ?t = Some ?f \<and> jira_Summary ?f = issue_summary ?i"
    "jira_Key ?t = ''OSASINFRA-1''" "jira_Status ?f = Some ''New''"
    by (simp_all add: created_ticket_def next_key_def new_issue_def it)
  from summary_round_trip [OF h, of ?t ?f Map.empty] t h show ?thesis
    by (simp add: n it)
qed

text \<open>The pattern admits digits only: it would find nothing in the summary written for
  a negative number, which the source repository never assigns.\<close>

lemma summary_of_negative_number:
  "ghIssueNumberRegex
     (issue_summary \<lparr>Title = ''crash'', Body = [], URL = [], Number = - 5,
        Author = \<lparr>Handle = ''a'', JiraUsername = []\<rparr>,
        Assignee = \<lparr>Handle = ''b'', JiraUsername = ''b1''\<rparr>,
        Status = ''open'', IsPR = None\<rparr>) = None"
  by (simp add: issue_summary_def Itoa_def digits_of_nat.simps digit_char_def
      ghIssueNumber_here_def is_digit_def)

section \<open>The index keeps the last issue of a number\<close>

lemma find_snoc:
  "find P (xs @ [x]) = (case find P xs of Some y \<Rightarrow> Some y | None \<Rightarrow> if P x then Some x else None)"
  by (induction xs) simp_all

lemma find_skip:
  "\<forall>j \<in> set xs. \<not> P j \<Longrightarrow> find P (xs @ ys) = find P ys"
  by (induction xs) simp_all

lemma alreadyKnown_find:
  "alreadyKnown issues m0 = Inr m \<Longrightarrow>
   m n = (case find (\<lambda>i. issue_number i = Some n) (rev issues) of
            Some i \<Rightarrow> Some (known_record i)
          | None \<Rightarrow> m0 n)"
proof (induction issues arbitrary: m0)
  case Nil
  then show ?case by simp
next
  case (Cons x xs)
  from Cons.prems obtain f where f: "jira_Fields x = Some f"
    by (cases "jira_Fields x") simp_all
  show ?case
  proof (cases "ghIssueNumberRegex (jira_Summary f)")
    case None
    with f have nx: "issue_number x = None"
      by (simp add: issue_number_def)
    from Cons.prems f None have "alreadyKnown xs m0 = Inr m" by simp
    from Cons.IH [OF this] nx show ?thesis
      by (simp add: find_snoc split: option.splits)
  next
    case (Some ds)
    obtain k e where at: "Atoi ds = (k, e)" by (cases "Atoi ds")
    with Cons.prems f Some have e: "e = None"
      by (cases e) simp_all
    with at f Some have nx: "issue_number x = Some k"
      by (simp add: issue_number_def)
    from f have kr: "known_record x = \<lparr>Key = jira_Key x, KnownStatus = jira_Status f\<rparr>"
      by (simp add: known_record_def)
    from Cons.prems f Some at e
    have "alreadyKnown xs (m0(k \<mapsto> \<lparr>Key = jira_Key x, KnownStatus = jira_Status f\<rparr>)) = Inr m"
      by simp
    from Cons.IH [OF this] nx kr show ?thesis
      by (simp add: find_snoc split: option.splits)
  qed
qed

text \<open>
  C5, as amended. When the index is built from a stream of tracker issues, the entry of
  a number is the record of the last issue in the stream whose summary embeds the
  number: an issue that embeds the number and is followed by no other that does.
\<close>

theorem alreadyKnown_last_write_wins:
  assumes "alreadyKnown (pre @ i # post) Map.empty = Inr m"
    and "issue_number i = Some n"
    and "\<forall>j \<in> set post. issue_number j \<noteq> Some n"
  shows "m n = Some (known_record i)"
proof -
  have "find (\<lambda>i. issue_number i = Some n) (rev (pre @ i # post))
        = find (\<lambda>i. issue_number i = Some n) (i # rev pre)"
    using assms(3) find_skip [of "rev post" "\<lambda>i. issue_number i = Some n" "i # rev pre"]
    by simp
  also have "\<dots> = Some i"
    using assms(2) by simp
  finally show ?thesis
    using alreadyKnown_find [OF assms(1), of n] by simp
qed

text \<open>Two tickets for item 5 followed by an unrelated one.\<close>

theorem alreadyKnown_last_write_wins_witness:
  "alreadyKnown
     ([sample_ticket ''OSASINFRA-1'' ''GH-orc-5: first'' ''To Do'']
      @ sample_ticket ''OSASINFRA-2'' ''GH-orc-5: second'' ''Closed''
      # [sample_ticket ''OSASINFRA-9'' ''Unrelated work'' ''To Do'']) Map.empty
   = Inr [5 \<mapsto> \<lparr>Key = ''OSASINFRA-2'', KnownStatus = Some ''Closed''\<rparr>] \<and>
   issue_number (sample_ticket ''OSASINFRA-2'' ''GH-orc-5: second'' ''Closed'') = Some 5 \<and>
   list_all (\<lambda>j. issue_number j \<noteq> Some 5)
     [sample_ticket ''OSASINFRA-9'' ''Unrelated work'' ''To Do''] \<and>
   [(5::int) \<mapsto> \<lparr>Key = ''OSASINFRA-2'', KnownStatus = Some ''Closed''\<rparr>] 5
   = Some (known_record (sample_ticket ''OSASINFRA-2'' ''GH-orc-5: second'' ''Closed''))"
proof -
  note ev = sample_ticket_def ghIssueNumber_here_def is_digit_def Atoi_def digits_val_def
    digit_val_def
  have a: "alreadyKnown
     ([sample_ticket ''OSASINFRA-1'' ''GH-orc-5: first'' ''To Do'']
      @ sample_ticket ''OSASINFRA-2'' ''GH-orc-5: second'' ''Closed''
      # [sample_ticket ''OSASINFRA-9'' ''Unrelated work'' ''To Do'']) Map.empty
   = Inr [5 \<mapsto> \<lparr>Key = ''OSASINFRA-2'', KnownStatus = Some ''Closed''\<rparr>]"
    by (simp add: ev)
  have b: "issue_number (sample_ticket ''OSASINFRA-2'' ''GH-orc-5: second'' ''Closed'') = Some 5"
    by (simp add: issue_number_def ev)
  have c: "\<forall>j \<in> set [sample_ticket ''OSASINFRA-9'' ''Unrelated work'' ''To Do''].
             issue_number j \<noteq> Some 5"
    by (simp add: issue_number_def ev)
  from alreadyKnown_last_write_wins [OF a b c] a b c show ?thesis
    by (simp add: list_all_iff)
qed

text \<open>The claim as stated fails: of two issues for item 5 the index keeps the
  second, \<^verbatim>\<open>OSASINFRA-2\<close>, not the first.\<close>

theorem alreadyKnown_first_match_counterexample:
  "lookup_known
     [\<lparr>jira_Key = ''OSASINFRA-1'',
       jira_Fields = Some \<lparr>jira_Assignee = None, jira_Description = [], jira_Type = ''Task'',
         jira_Project = ''OSASINFRA'', jira_Summary = ''GH-orc-5: first'',
         jira_Components = [''ORC''], jira_Status = Some ''To Do''\<rparr>\<rparr>,
      \<lparr>jira_Key = ''OSASINFRA-2'',
       jira_Fields = Some \<lparr>jira_Assignee = None, jira_Description = [], jira_Type = ''Task'',
         jira_Project = ''OSASINFRA'', jira_Summary = ''GH-orc-5: second'',
         jira_Components = [''ORC''], jira_Status = Some ''Closed''\<rparr>\<rparr>] 5
   = Inr (Some \<lparr>Key = ''OSASINFRA-2'', KnownStatus = Some ''Closed''\<rparr>)"
  by (simp add: lookup_known_def ghIssueNumber_here_def is_digit_def Atoi_def digits_val_def
      digit_val_def)

section \<open>Pagination\<close>

lemma fetch_loop_chain:
  "page_chain request_ok pages \<Longrightarrow> url \<noteq> [] \<Longrightarrow> request_ok url \<Longrightarrow>
   fetch_loop request_ok url (map reply_of pages @ rest) sent reqs
   = Some (sent @ concat (map (\<lambda>r. filter (\<lambda>issue. IsPR issue = None) (batch_of r)) pages),
           reqs @ url # map (\<lambda>r. next_url (Header r)) (butlast pages), Closed, rest)"
proof (induction request_ok pages arbitrary: url sent reqs rule: page_chain.induct)
  case (1 request_ok)
  then show ?case by simp
next
  case (2 request_ok r)
  then obtain b where b: "Batch r = Some b" by auto
  have stop: "fetch_loop request_ok [] rest (sent @ filter (\<lambda>issue. IsPR issue = None) b) (reqs @ [url])
        = Some (sent @ filter (\<lambda>issue. IsPR issue = None) b, reqs @ [url], Closed, rest)"
    by (cases rest) auto
  from 2 b stop show ?case
    by (simp add: reply_of_def batch_of_def)
next
  case (3 request_ok r r' rs)
  then obtain b where b: "Batch r = Some b" by auto
  from "3.prems" have nx: "next_url (Header r) \<noteq> []" "request_ok (next_url (Header r))"
    and ch: "page_chain request_ok (r' # rs)" and st: "StatusCode r = 200"
    by simp_all
  have step: "fetch_loop request_ok url (map reply_of (r # r' # rs) @ rest) sent reqs
      = fetch_loop request_ok (next_url (Header r)) (map reply_of (r' # rs) @ rest)
          (sent @ filter (\<lambda>issue. IsPR issue = None) b) (reqs @ [url])"
    using "3.prems"(2,3) st b by (simp add: reply_of_def)
  show ?case
    unfolding step "3.IH" [OF ch nx]
    using b by (simp add: batch_of_def)
qed

lemma search_loop_chain:
  "search_chain pages \<Longrightarrow> last' < total' \<Longrightarrow>
   search_loop (map search_reply_of pages @ rest) last' total' sent reqs
   = Some (sent @ concat (map fst pages),
           reqs @ last' # map next_offset (butlast pages), Closed, rest)"
proof (induction pages arbitrary: last' total' sent reqs rule: search_chain.induct)
  case 1
  then show ?case by simp
next
  case (2 p)
  obtain issues r where p: "p = (issues, r)" by (cases p)
  from "2.prems" p have acc: "accepted r" and stp: "\<not> next_offset (issues, r) < Total r"
    by simp_all
  have stop: "search_loop rest (next_offset (issues, r)) (Total r) (sent @ issues) (reqs @ [last'])
        = Some (sent @ issues, reqs @ [last'], Closed, rest)"
    using stp by (cases rest) auto
  from "2.prems"(2) acc stop show ?case
    unfolding p by (simp add: search_reply_of_def accepted_def next_offset_def)
next
  case (3 p p' ps)
  obtain issues r where p: "p = (issues, r)" by (cases p)
  from "3.prems" p have acc: "accepted r" and nx: "next_offset (issues, r) < Total r"
    and ch: "search_chain (p' # ps)"
    by simp_all
  have step: "search_loop (map search_reply_of (p # p' # ps) @ rest) last' total' sent reqs
      = search_loop (map search_reply_of (p' # ps) @ rest) (next_offset (issues, r)) (Total r)
          (sent @ issues) (reqs @ [last'])"
    using "3.prems"(2) acc unfolding p
    by (simp add: search_reply_of_def accepted_def next_offset_def)
  show ?case
    unfolding step "3.IH" [OF ch nx]
    by (simp add: p)
qed

text \<open>
  C7, as amended. Given N successful pages of the source repository, each but the last
  with a next link, the fetcher sends exactly the items of all pages that are not pull
  requests, in order, makes exactly N requests (the first address, then the next
  address of each page but the last), closes its stream and leaves every further reply
  unread. Given N successful pages of the tracker search, each but the last with its
  offset plus its number of issues below the total, the search sends exactly the issues
  of all pages, in order, makes exactly N requests, closes its stream and leaves every
  further reply unread.
\<close>

theorem pagination_terminates:
  "(request_ok issues_url \<and> page_chain request_ok pages \<longrightarrow>
      fetchGitHubIssues request_ok (map reply_of pages @ rest)
      = Some (concat (map (\<lambda>r. filter (\<lambda>issue. IsPR issue = None) (batch_of r)) pages),
              issues_url # map (\<lambda>r. next_url (Header r)) (butlast pages), Closed, rest)) \<and>
   (search_chain spages \<longrightarrow>
      SearchIssues (map search_reply_of spages @ srest)
      = Some (concat (map fst spages), 0 # map next_offset (butlast spages), Closed, srest))"
proof -
  have u: "issues_url \<noteq> []" by (simp add: issues_url_def)
  show ?thesis
    using fetch_loop_chain [of request_ok pages issues_url rest "[]" "[]"] u
      search_loop_chain [of spages 0 1 srest "[]" "[]"]
    by (simp add: fetchGitHubIssues_def SearchIssues_def)
qed

text \<open>Two pages of each service, followed by a reply that is never read.\<close>

lemma ev_next: "next_url [(''link'', sample_link)]
   = ''https://api.github.com/repositories/1/issues?state=all&page=2''"
  by code_simp

lemma ev_next_none: "next_url [(''link'', [])] = []"
  by (simp add: next_url_def Header_Get_def)

lemma ev_go_int: "go_int 2 = 2" "go_int 3 = 3"
  by (simp_all add: go_int_def)

theorem pagination_terminates_witness:
  "page_chain (\<lambda>url. True)
     [sample_page sample_link
        [sample_item 1 ''open'' ''alice-gh'' None, sample_item 2 ''open'' ''alice-gh'' (Some ''{}'')],
      sample_page [] [sample_item 3 ''closed'' ''alice-gh'' None]] \<and>
   fetchGitHubIssues (\<lambda>url. True)
     (map reply_of
        [sample_page sample_link
           [sample_item 1 ''open'' ''alice-gh'' None, sample_item 2 ''open'' ''alice-gh'' (Some ''{}'')],
         sample_page [] [sample_item 3 ''closed'' ''alice-gh'' None]]
      @ [(None, Some (TransportError ''never asked''))])
   = Some ([sample_item 1 ''open'' ''alice-gh'' None, sample_item 3 ''closed'' ''alice-gh'' None],
           [issues_url, ''https://api.github.com/repositories/1/issues?state=all&page=2''],
           Closed, [(None, Some (TransportError ''never asked''))]) \<and>
   search_chain
     [([sample_ticket ''OSASINFRA-1'' ''GH-orc-1: a'' ''To Do'',
        sample_ticket ''OSASINFRA-2'' ''GH-orc-3: b'' ''Closed''],
       \<lparr>StatusCode = 200, Header = [], StartAt = 0, Total = 3\<rparr>),
      ([sample_ticket ''OSASINFRA-3'' ''Unrelated work'' ''To Do''],
       \<lparr>StatusCode = 200, Header = [], StartAt = 2, Total = 3\<rparr>)] \<and>
   SearchIssues
     (map search_reply_of
        [([sample_ticket ''OSASINFRA-1'' ''GH-orc-1: a'' ''To Do'',
           sample_ticket ''OSASINFRA-2'' ''GH-orc-3: b'' ''Closed''],
          \<lparr>StatusCode = 200, Header = [], StartAt = 0, Total = 3\<rparr>),
         ([sample_ticket ''OSASINFRA-3'' ''Unrelated work'' ''To Do''],
          \<lparr>StatusCode = 200, Header = [], StartAt = 2, Total = 3\<rparr>)]
      @ [([], None, Some (TransportError ''never asked''))])
   = Some ([sample_ticket ''OSASINFRA-1'' ''GH-orc-1: a'' ''To Do'',
            sample_ticket ''OSASINFRA-2'' ''GH-orc-3: b'' ''Closed'',
            sample_ticket ''OSASINFRA-3'' ''Unrelated work'' ''To Do''],
           [0, 2], Closed, [([], None, Some (TransportError ''never asked''))])"
proof -
  let ?pages = "[sample_page sample_link
        [sample_item 1 ''open'' ''alice-gh'' None, sample_item 2 ''open'' ''alice-gh'' (Some ''{}'')],
      sample_page [] [sample_item 3 ''closed'' ''alice-gh'' None]]"
  let ?spages = "[([sample_ticket ''OSASINFRA-1'' ''GH-orc-1: a'' ''To Do'',
        sample_ticket ''OSASINFRA-2'' ''GH-orc-3: b'' ''Closed''],
       \<lparr>StatusCode = 200, Header = [], StartAt = 0, Total = 3\<rparr>),
      ([sample_ticket ''OSASINFRA-3'' ''Unrelated work'' ''To Do''],
       \<lparr>StatusCode = 200, Header = [], StartAt = 2, Total = 3\<rparr>)]"
  have pc: "page_chain (\<lambda>url. True) ?pages"
    by (simp add: sample_page_def ev_next ev_next_none)
  have sc: "search_chain ?spages"
    by (simp add: accepted_def next_offset_def ev_go_int)
  have ok: "(\<lambda>url. True) issues_url" by simp
  have pr: "IsPR (sample_item 1 ''open'' ''alice-gh'' None) = None"
    "IsPR (sample_item 2 ''open'' ''alice-gh'' (Some ''{}'')) = Some ''{}''"
    "IsPR (sample_item 3 ''closed'' ''alice-gh'' None) = None"
    by (simp_all add: sample_item_def)
  have hd: "Header (sample_page sample_link
        [sample_item 1 ''open'' ''alice-gh'' None, sample_item 2 ''open'' ''alice-gh'' (Some ''{}'')])
      = [(''link'', sample_link)]"
    by (simp add: sample_page_def)
  have bt: "\<And>l b. batch_of (sample_page l b) = b"
    by (simp add: batch_of_def sample_page_def)
  from pagination_terminates
         [of "\<lambda>url. True" ?pages "[(None, Some (TransportError ''never asked''))]"
             ?spages "[([], None, Some (TransportError ''never asked''))]"]
       pc sc
  show ?thesis
    by (simp add: pr hd bt ev_next next_offset_def ev_go_int)
qed

text \<open>The claim as stated fails for the fetcher: a single page whose only entry is a
  pull request is one successful page, and nothing is sent.\<close>

theorem fetch_emits_all_items_counterexample:
  "fetchGitHubIssues (\<lambda>url. True)
     [(Some \<lparr>StatusCode = 200, Header = [],
         Batch = Some [\<lparr>Title = ''a change'', Body = [], URL = [], Number = 3,
           Author = \<lparr>Handle = ''a'', JiraUsername = []\<rparr>,
           Assignee = \<lparr>Handle = ''b'', JiraUsername = []\<rparr>,
           Status = ''open'', IsPR = Some ''{}''\<rparr>]\<rparr>, None)]
   = Some ([], [issues_url], Closed, [])"
  by (simp add: fetchGitHubIssues_def issues_url_def next_url_def Header_Get_def)

section \<open>The tracker search on an unexpected status\<close>

lemma fetch_loop_never_unclosed:
  "fetch_loop request_ok url script sent0 reqs0 = Some (sent, reqs, e, rest) \<Longrightarrow> e \<noteq> Unclosed"
proof (induction script arbitrary: url sent0 reqs0)
  case Nil
  then show ?case by (auto split: if_splits)
next
  case (Cons reply script)
  obtain res err where reply: "reply = (res, err)" by (cases reply)
  show ?case
  proof (cases "url \<noteq> [] \<and> request_ok url \<and> err = None \<and>
                (\<exists>r b. res = Some r \<and> StatusCode r = 200 \<and> Batch r = Some b)")
    case True
    then obtain r b where r: "res = Some r" "StatusCode r = 200" "Batch r = Some b" by blast
    from Cons.prems True r reply
    have "fetch_loop request_ok (next_url (Header r)) script
            (sent0 @ filter (\<lambda>issue. IsPR issue = None) b) (reqs0 @ [url])
          = Some (sent, reqs, e, rest)"
      by simp
    then show ?thesis by (rule Cons.IH)
  next
    case False
    with Cons.prems reply show ?thesis
      by (auto split: if_splits option.splits)
  qed
qed

text \<open>
  C4 (the code departs from the claim). When the search call succeeds with a status
  other than 200, 204 and 202, the search goroutine returns without closing its
  channel: the stream is left open and its consumer waits for ever.
\<close>

theorem SearchIssues_unexpected_status_leaves_stream_open:
  "SearchIssues
     [([], Some \<lparr>StatusCode = 201, Header = [], StartAt = 0, Total = 0\<rparr>, None)]
   = Some ([], [0], Unclosed, [])"
  by (simp add: SearchIssues_def)

section \<open>A second run\<close>

subsection \<open>The index after appending a ticket and after a transition\<close>


lemma upd_known_record:
  assumes "jira_Fields t = Some f"
  shows "\<lparr>Key = jira_Key (set_status key name t),
          KnownStatus = (if jira_Key t = key then Some name else jira_Status f)\<rparr>
         = upd_known key name \<lparr>Key = jira_Key t, KnownStatus = jira_Status f\<rparr>"
  by (simp add: set_status_def upd_known_def)







subsection \<open>One step of the loop on the tracker\<close>



lemma step_create:
  assumes "known (Number i) = None"
  shows "reconcile_item (tracker initial workflow) known i ts
         = (None, ts @ [created_ticket initial (new_issue i) ts])"
  using assms
  by (simp add: reconcile_item_def createJiraIssue_def tracker_calls)




text \<open>The calls for an item that has an index entry, on this tracker.\<close>

lemma item_calls_tracker:
  assumes "known (Number i) = Some \<lparr>Key = key, KnownStatus = Some st\<rparr>"
  shows "item_calls (tracker initial workflow) known i w
         = (if Status i = ''closed'' \<and> st \<noteq> ''Closed''
            then [GetTransitionsCall key, DoTransitionCall key (snd (transition_ids workflow))]
            else if Status i = ''open'' \<and> st = ''Closed''
            then [GetTransitionsCall key, DoTransitionCall key (fst (transition_ids workflow))]
            else [GetTransitionsCall key])"
proof -
  let ?k = "\<lparr>Key = key, KnownStatus = Some st\<rparr>"
  let ?T = "tracker initial workflow"
  consider (close) "Status i = ''closed''" "st \<noteq> ''Closed''"
    | (reopen) "Status i = ''open''" "st = ''Closed''"
    | (same) "\<not> (Status i = ''closed'' \<and> st \<noteq> ''Closed'')"
        "\<not> (Status i = ''open'' \<and> st = ''Closed'')"
    by blast
  then show ?thesis
  proof cases
    case close
    from recorded_close [where known = known and issue = i and k = ?k and st = st
        and c = ?T and log = "[]" and w = w, OF assms close(1) _ close(2)] close
    show ?thesis
      by (simp add: item_calls_def tracker_calls)
  next
    case reopen
    from reopen(1) have nc: "Status i \<noteq> ''closed''"
      using closed_neq_open by simp
    from recorded_reopen [where known = known and issue = i and k = ?k
        and c = ?T and log = "[]" and w = w, OF assms reopen(1)] reopen nc
    show ?thesis
      by (simp add: item_calls_def tracker_calls)
  next
    case same
    from recorded_noop [where known = known and issue = i and k = ?k
        and c = ?T and log = "[]" and w = w, OF assms] same
    show ?thesis
      by (simp add: item_calls_def tracker_calls)
  qed
qed

subsection \<open>The tracker never issues a key twice\<close>




lemma set_status_key [simp]: "jira_Key (set_status key name t) = jira_Key t"
  by (simp add: set_status_def)



subsection \<open>The index stays consistent with the items handled\<close>




















subsection \<open>The calls of a whole run\<close>

text \<open>On the recording client the loop body makes the same calls whatever the log
  holds, and leaves the wrapped client in the state it would be in without the log.\<close>

lemma recording_createJiraIssue:
  "createJiraIssue (recording c) issue (log, w)
   = (fst (createJiraIssue c issue w),
      (log @ [CreateCall (new_issue issue)], snd (createJiraIssue c issue w)))"
  by (simp add: createJiraIssue_def recording_calls split: prod.splits option.splits)

lemma recording_item:
  "reconcile_item (recording c) known issue (log, w)
   = (fst (reconcile_item c known issue w),
      (log @ item_calls c known issue w, snd (reconcile_item c known issue w)))"
proof (cases "known (Number issue)")
  case None
  then show ?thesis
    by (simp add: reconcile_item_def item_calls_def recording_createJiraIssue
        split: prod.splits sum.splits)
next
  case (Some k)
  obtain ts w1 where g: "Issue_GetTransitions c (Key k) w = (ts, w1)"
    by (cases "Issue_GetTransitions c (Key k) w")
  obtain a b where ab: "transition_ids ts = (a, b)"
    by (cases "transition_ids ts")
  show ?thesis
  proof (cases "KnownStatus k")
    case None
    with Some g ab show ?thesis
      by (simp add: reconcile_item_def item_calls_def recording_calls split: prod.splits)
  next
    case st: (Some st)
    with Some g ab show ?thesis
      by (simp add: reconcile_item_def item_calls_def recording_calls split: prod.splits)
  qed
qed



subsection \<open>The second and the third run\<close>




text \<open>
  The claim as stated fails: the closed item 42 has no ticket; the first run creates
  one, with the tracker's initial status, and makes no transition call; so the second
  run finds a ticket that is not closed for a closed item and applies the transition
  \<^verbatim>\<open>Closed\<close>.
\<close>

lemma run_calls_single:
  assumes "alreadyKnown tickets Map.empty = Inr known"
  shows "run_calls c [i] tickets = item_calls c known i tickets"
proof -
  have "reconcile (recording c) known [i] ([], tickets)
        = reconcile_item (recording c) known i ([], tickets)"
    by (rule reconcile_single)
  with assms recording_item [of c known i "[]" tickets] show ?thesis
    by (simp only: run_calls_def sum.case fst_conv snd_conv append_Nil)
qed

lemma created_index_any:
  "alreadyKnown [created_ticket initial (new_issue (sample_item 42 s ''alice-gh'' None)) []] Map.empty
   = Inr [42 \<mapsto> \<lparr>Key = ''OSASINFRA-1'', KnownStatus = Some initial\<rparr>]"
proof -
  have it: "Itoa 42 = ''42''" "Itoa 1 = ''1''"
    by (simp_all add: Itoa_def digits_of_nat.simps digit_char_def)
  show ?thesis
    by (simp add: created_ticket_def next_key_def new_issue_def issue_summary_def sample_item_def
        it ghIssueNumber_here_def is_digit_def Atoi_def digits_val_def digit_val_def)
qed

lemma first_run_creates:
  "run (tracker initial workflow) [i] []
   = (None, [created_ticket initial (new_issue i) []]) \<and>
   run_calls (tracker initial workflow) [i] [] = [CreateCall (new_issue i)]"
proof -
  have e: "alreadyKnown [] Map.empty = Inr Map.empty" by simp
  have n: "Map.empty (Number i) = None" by simp
  from recorded_create [where known = Map.empty and issue = i
      and c = "tracker initial workflow" and log = "[]" and w = "[]", OF n]
  have "item_calls (tracker initial workflow) Map.empty i [] = [CreateCall (new_issue i)]"
    by (simp add: item_calls_def)
  with run_calls_single [OF e, of "tracker initial workflow" i]
    step_create [where known = Map.empty and i = i and initial = initial
      and workflow = workflow and ts = "[]", OF n]
  show ?thesis
    by (simp add: run_def)
qed


text \<open>Whatever status the tracker gives a new ticket, some item without a ticket gets a
  mutation call on the second run: an open one if new tickets are \<^verbatim>\<open>Closed\<close>, a
  closed one otherwise.\<close>

lemma second_run_mutates_for_any_initial_status:
  "filter is_mutation
     (run_calls (tracker initial sample_workflow)
        [sample_item 42 (if initial = ''Closed'' then ''open'' else ''closed'') ''alice-gh'' None]
        (snd (run (tracker initial sample_workflow)
                [sample_item 42 (if initial = ''Closed'' then ''open'' else ''closed'')
                   ''alice-gh'' None] []))) \<noteq> []"
proof -
  have any: "\<exists>t. run_calls (tracker initial sample_workflow) [sample_item 42 s ''alice-gh'' None]
                   (snd (run (tracker initial sample_workflow)
                           [sample_item 42 s ''alice-gh'' None] []))
                 = [GetTransitionsCall ''OSASINFRA-1'', DoTransitionCall ''OSASINFRA-1'' t]"
    if s: "(s = ''closed'' \<and> initial \<noteq> ''Closed'') \<or> (s = ''open'' \<and> initial = ''Closed'')"
    for s
  proof -
    let ?i = "sample_item 42 s ''alice-gh'' None"
    let ?T = "tracker initial sample_workflow"
    let ?known = "[(42::int) \<mapsto> \<lparr>Key = ''OSASINFRA-1'', KnownStatus = Some initial\<rparr>]"
    let ?ts = "[created_ticket initial (new_issue ?i) []]"
    note first = first_run_creates [of initial sample_workflow ?i]
    have n: "?known (Number ?i) = Some \<lparr>Key = ''OSASINFRA-1'', KnownStatus = Some initial\<rparr>"
      and st: "Status ?i = s"
      by (simp_all add: sample_item_def)
    note ic = item_calls_tracker [where known = ?known and i = ?i, OF n,
        of initial sample_workflow ?ts]
    from s have "\<exists>t. item_calls ?T ?known ?i ?ts
        = [GetTransitionsCall ''OSASINFRA-1'', DoTransitionCall ''OSASINFRA-1'' t]"
    proof
      assume "s = ''closed'' \<and> initial \<noteq> ''Closed''"
      with ic st show ?thesis by simp
    next
      assume c: "s = ''open'' \<and> initial = ''Closed''"
      then have "s \<noteq> ''closed''"
        using closed_neq_open by simp
      with c ic st show ?thesis by simp
    qed
    with run_calls_single [OF created_index_any [of initial s], of ?T ?i] first
    show ?thesis
      by simp
  qed
  show ?thesis
  proof (cases "initial = ''Closed''")
    case True
    with any [of "''open''"] show ?thesis
      by (auto simp: is_mutation_def)
  next
    case False
    with any [of "''closed''"] show ?thesis
      by (auto simp: is_mutation_def)
  qed
qed


end
